theory Spec2Isabelle
  imports Main "HOL-Library.Word"
begin

unbundle bit_operations_syntax

section \<open>The Telemetrix engine for the Raspberry Pi Pico 2W (serial, asyncio)\<close>

text \<open>
  A shallow embedding of \<^verbatim>\<open>telemetrix_rpi_pico_2w_serial_aio.py\<close>. The class
  \<^verbatim>\<open>TelemetrixRpiPico2WSerialAIO\<close> is a record of its instance attributes; every
  method takes the record and returns the exception it raised (or its normal completion)
  together with the updated record. Python integers are \<open>int\<close>, dictionaries are maps.
  Waiting (\<^verbatim>\<open>asyncio.sleep\<close>), printing and time stamps do not appear.
\<close>

subsection \<open>Exceptions\<close>

text \<open>The texts of the \<^verbatim>\<open>RuntimeError\<close>s the methods raise.\<close>

datatype message =
    Digital_write_mode_not_set
      \<comment> \<open>'digital_write: You must set the pin mode before performing a digital write.'\<close>
  | Pwm_write_mode_not_set
      \<comment> \<open>'pwm_write: You must set the pin mode before performing an pwm write.'\<close>
  | Pwm_duty_cycle_out_of_range  \<comment> \<open>'Raw PWM duty cycle out of range'\<close>
  | I2c_read_no_callback  \<comment> \<open>'I2C Read: A callback function must be specified.'\<close>
  | I2c_never_called int
      \<comment> \<open>'I2C Write: set_pin_mode_i2c never called for i2c port N.' (the port of the text)\<close>
  | Rgb_out_of_range  \<comment> \<open>'RGB values must be in the range of 0-255'\<close>
  | Invalid_adc_number  \<comment> \<open>'Invalid ADC Number'\<close>
  | Pwm_at_maximum
      \<comment> \<open>'pwm or servo set mode: number of active PWM pins is at maximum'\<close>
  | Gpio_pin_invalid  \<comment> \<open>'Gpio Pin Number is invalid'\<close>
  | I2c_port_invalid  \<comment> \<open>'i2c port must be either a 0 or 1'\<close>
  | I2c_sda_invalid int  \<comment> \<open>'GPIO N is an invalid i2c SDA GPIO'\<close>
  | I2c_scl_invalid int  \<comment> \<open>'GPIO N is an invalid i2c SCL GPIO'\<close>
  | I2c_sda_in_use int  \<comment> \<open>'GPIO SDA pin N is already in use.'\<close>
  | I2c_scl_in_use int  \<comment> \<open>'GPIO SCL pin N is already in use.'\<close>
  | Dht_no_callback  \<comment> \<open>'set_pin_mode_dht: A Callback must be specified'\<close>
  | Dht_maximum int  \<comment> \<open>'Maximum Number Of DHTs Exceeded - set_pin_mode_dht fails for pin N'\<close>
  | Servo_mode_not_set
      \<comment> \<open>'You must call set_pin_mode_servo before trying to write a value to a servo ...'\<close>
  | Sonar_no_callback  \<comment> \<open>'set_pin_mode_sonar: A Callback must be specified'\<close>
  | Sonar_maximum  \<comment> \<open>'Maximum number of supported sonar devices exceeded.'\<close>
  | Unknown_pin_state  \<comment> \<open>'Unknown pin state'\<close>
  | Usb_cable  \<comment> \<open>'Is your USB cable plugged in?'\<close>
  | Servo_unavailable int  \<comment> \<open>'Servo Attach For Pin N Failed: No Available Servos'\<close>

text \<open>
  The exceptions of the model. \<open>RecursionError\<close> is a subclass of \<^verbatim>\<open>RuntimeError\<close>
  in Python, \<open>UnboundLocalError\<close> of \<^verbatim>\<open>NameError\<close>; \<open>SerialException\<close> is pyserial's.
\<close>

datatype exn =
    RuntimeError message
  | RecursionError
  | KeyError
  | IndexError
  | TypeError
  | NameError
  | UnboundLocalError
  | AttributeError
  | OverflowError
  | ValueError
  | StructError  \<comment> \<open>\<^verbatim>\<open>struct.error\<close>\<close>
  | SerialException

subsection \<open>PrivateConstants\<close>

text \<open>
  The module \<^verbatim>\<open>private_constants\<close> is not among the sources. The pin modes are
  documented in the docstring of \<^verbatim>\<open>get_pico_pins\<close> and defined from it; the command
  and report identifiers and the limits are a parameter of the model. The identifiers are
  bytes of the wire protocol, so they have the type of a byte.
\<close>

type_synonym byte = "8 word"

definition AT_INPUT :: int where "AT_INPUT = 0"
definition AT_OUTPUT :: int where "AT_OUTPUT = 1"
definition AT_PWM_OUTPUT :: int where "AT_PWM_OUTPUT = 2"
definition AT_INPUT_PULLUP :: int where "AT_INPUT_PULLUP = 3"
definition AT_INPUT_PULL_DOWN :: int where "AT_INPUT_PULL_DOWN = 4"
definition AT_ANALOG :: int where "AT_ANALOG = 5"
definition AT_SERVO :: int where "AT_SERVO = 6"
definition AT_SONAR :: int where "AT_SONAR = 7"
definition AT_DHT :: int where "AT_DHT = 8"
definition AT_I2C :: int where "AT_I2C = 9"
definition AT_NEO_PIXEL :: int where "AT_NEO_PIXEL = 10"
definition AT_MODE_NOT_SET :: int where "AT_MODE_NOT_SET = 255"

record private_constants =
  \<comment> \<open>commands\<close>
  LOOP_COMMAND :: byte
  SET_PIN_MODE :: byte
  DIGITAL_WRITE :: byte
  ANALOG_WRITE :: byte
  I2C_BEGIN :: byte
  I2C_READ :: byte
  I2C_WRITE :: byte
  I2C_NO_REGISTER :: byte
  SONAR_NEW :: byte
  DHT_NEW :: byte
  INIT_NEOPIXELS :: byte
  STOP_ALL_REPORTS :: byte
  RESET_BOARD :: byte
  \<comment> \<open>reports\<close>
  DEBUG_PRINT :: byte
  DIGITAL_REPORT :: byte
  ANALOG_REPORT :: byte
  CPU_TEMP_REPORT :: byte
  UNIQUE_ID_REPORT :: byte
  FIRMWARE_REPORT :: byte
  SERVO_UNAVAILABLE :: byte
  I2C_READ_REPORT :: byte
  I2C_TOO_FEW_BYTES_RECEIVED :: byte
  I2C_TOO_MANY_BYTES_RECEIVED :: byte
  SONAR_DISTANCE :: byte
  DHT_REPORT :: byte
  SPI_REPORT :: byte
  \<comment> \<open>limits and indices\<close>
  MAX_SONARS :: int
  MAX_DHTS :: int
  MAX_PWM_DUTY_CYCLE :: int
  MIN_SERVO_DUTY_CYCLE :: int
  MAX_SERVO_DUTY_CYCLE :: int

subsection \<open>The transport\<close>

text \<open>
  Modelled from the spec: the class \<^verbatim>\<open>TelemetrixAioSerial\<close> (module
  \<^verbatim>\<open>telemtrix_aio_serial\<close>) is not among the sources. The spec gives the engine a
  byte stream with \<^verbatim>\<open>read(n)\<close>, \<^verbatim>\<open>write(bytes)\<close> and \<^verbatim>\<open>close()\<close>, and names a closed
  stream a transport fault. Here a write to an open transport appends the frame to what was
  sent, a write to a closed one raises \<open>SerialException\<close>, and every call of
  \<^verbatim>\<open>write\<close> is counted, the failed ones too.
\<close>

record transport =
  is_open :: bool
  written :: "int list list"
  write_calls :: nat

definition new_transport :: transport where
  "new_transport = \<lparr>is_open = True, written = [], write_calls = 0\<rparr>"

definition serial_write :: "transport \<Rightarrow> int list \<Rightarrow> exn option \<times> transport" where
  "serial_write t data =
     (let t' = t\<lparr>write_calls := Suc (write_calls t)\<rparr>
      in if is_open t then (None, t'\<lparr>written := written t @ [data]\<rparr>)
         else (Some SerialException, t'))"

definition serial_close :: "transport \<Rightarrow> transport" where
  "serial_close t = t\<lparr>is_open := False\<rparr>"

subsection \<open>The session\<close>

text \<open>
  A callback is a name; calling it appends the name and the list it was called with to
  \<open>delivered\<close>. Callbacks are taken to return normally.
\<close>

type_synonym callback = nat

record session =
  shutdown_on_exception :: bool
  reset_on_shutdown :: bool
  close_loop_on_shutdown :: bool
  pwm_active_count :: int
  analog_callbacks :: "int \<rightharpoonup> callback"
  cpu_temp_callback :: "callback option"
  digital_callbacks :: "int \<rightharpoonup> callback"
  i2c_callback :: "callback option"
  i2c_callback2 :: "callback option"
  i2c_0_active :: bool
  i2c_1_active :: bool
  spi_callback :: "callback option"
  spi_callback2 :: "callback option"
  sonar_callbacks :: "int \<rightharpoonup> callback"
  sonar_count :: int
  dht_callbacks :: "int \<rightharpoonup> callback"
  dht_count :: int
  serial_port :: "transport option"
  shutdown_flag :: bool
  loop_back_callback :: "callback option"
  firmware_version :: "int list"
  reported_pico_id :: "int list"
  maximum_pwm_duty_cycle :: int
  pico_pins :: "int \<rightharpoonup> int"
  i2c_sda_pins :: "int \<rightharpoonup> int"
  i2c_scl_pins :: "int \<rightharpoonup> int"
  servo_ranges :: "int \<rightharpoonup> int list"
  number_of_pixels :: "int option"
  neopixels_initiated :: bool
  loop_stopped :: bool  \<comment> \<open>\<^verbatim>\<open>self.loop.stop()\<close> was called\<close>
  delivered :: "(callback \<times> int list) list"

type_synonym 'a result = "(exn + 'a) \<times> session"

text \<open>A dictionary comprehension over a list of keys, all with one value.\<close>

definition dict_of_keys :: "int list \<Rightarrow> 'v \<Rightarrow> (int \<rightharpoonup> 'v)" where
  "dict_of_keys ks v = map_of (map (\<lambda>k. (k, v)) ks)"

text \<open>
  The keys of \<^verbatim>\<open>pico_pins\<close>: \<^verbatim>\<open>range(23)\<close>, \<^verbatim>\<open>range(25, 29)\<close> and 64;
  \<^verbatim>\<open>servo_ranges\<close> has the first two ranges only.
\<close>

definition gpio_pins :: "int list" where
  "gpio_pins = [0..22] @ [25..28] @ [64]"

definition servo_pins :: "int list" where
  "servo_pins = [0..22] @ [25..28]"

definition sda_pins :: "int list" where
  "sda_pins = [2, 4, 6, 8, 10, 12, 14, 16, 18, 20, 26]"

definition scl_pins :: "int list" where
  "scl_pins = [3, 5, 7, 9, 11, 13, 15, 17, 19, 21, 27]"

text \<open>\<^verbatim>\<open>__init__\<close> with \<^verbatim>\<open>autostart=False\<close>: no port is open yet.\<close>

definition init :: "private_constants \<Rightarrow> bool \<Rightarrow> bool \<Rightarrow> bool \<Rightarrow> session" where
  "init pc shutdown_on_exc close_loop reset =
     \<lparr>shutdown_on_exception = shutdown_on_exc,
      reset_on_shutdown = reset,
      close_loop_on_shutdown = close_loop,
      pwm_active_count = 0,
      analog_callbacks = Map.empty,
      cpu_temp_callback = None,
      digital_callbacks = Map.empty,
      i2c_callback = None,
      i2c_callback2 = None,
      i2c_0_active = False,
      i2c_1_active = False,
      spi_callback = None,
      spi_callback2 = None,
      sonar_callbacks = Map.empty,
      sonar_count = 0,
      dht_callbacks = Map.empty,
      dht_count = 0,
      serial_port = None,
      shutdown_flag = False,
      loop_back_callback = None,
      firmware_version = [],
      reported_pico_id = [],
      maximum_pwm_duty_cycle = MAX_PWM_DUTY_CYCLE pc,
      pico_pins = dict_of_keys gpio_pins AT_MODE_NOT_SET,
      i2c_sda_pins = dict_of_keys sda_pins 255,
      i2c_scl_pins = dict_of_keys scl_pins 255,
      servo_ranges = dict_of_keys servo_pins [1000, 2000],
      number_of_pixels = None,
      neopixels_initiated = False,
      loop_stopped = False,
      delivered = []\<rparr>"

text \<open>\<^verbatim>\<open>_manual_open\<close>: the port is opened and stored.\<close>

definition manual_open :: "session \<Rightarrow> session" where
  "manual_open s = s\<lparr>serial_port := Some new_transport\<rparr>"

subsection \<open>Sending a command, shutting down\<close>

text \<open>\<^verbatim>\<open>bytes(command)\<close>: every element must be in \<^verbatim>\<open>range(256)\<close>.\<close>

definition py_bytes :: "int list \<Rightarrow> exn + int list" where
  "py_bytes xs = (if \<forall>x \<in> set xs. 0 \<le> x \<and> x < 256 then Inr xs else Inl ValueError)"

text \<open>\<^verbatim>\<open>except (RuntimeError, SerialException)\<close>, with the subclass of \<^verbatim>\<open>RuntimeError\<close>.\<close>

fun is_runtime_or_serial :: "exn \<Rightarrow> bool" where
  "is_runtime_or_serial (RuntimeError m) = True"
| "is_runtime_or_serial RecursionError = True"
| "is_runtime_or_serial SerialException = True"
| "is_runtime_or_serial e = False"

text \<open>
  \<^verbatim>\<open>shutdown\<close> and \<^verbatim>\<open>_send_command\<close> call each other: \<^verbatim>\<open>_send_command\<close> shuts down
  when there is no port, and \<^verbatim>\<open>shutdown\<close> sends commands. Python bounds the depth of
  nested calls and raises \<open>RecursionError\<close> beyond it; the first argument after the
  constants is the depth that is left.

  In \<^verbatim>\<open>_send_command\<close> a \<^verbatim>\<open>ValueError\<close> of \<^verbatim>\<open>bytes\<close> is caught and leaves
  \<^verbatim>\<open>send_message\<close> unbound, so that the call of \<^verbatim>\<open>write\<close> raises
  \<open>UnboundLocalError\<close>. The transport of this model raises no \<^verbatim>\<open>AttributeError\<close>.
\<close>

fun shutdown_rec :: "private_constants \<Rightarrow> nat \<Rightarrow> session \<Rightarrow> unit result"
  and send_command_rec :: "private_constants \<Rightarrow> nat \<Rightarrow> int list \<Rightarrow> session \<Rightarrow> unit result"
where
  "shutdown_rec pc 0 s = (Inl RecursionError, s)"
| "shutdown_rec pc (Suc d) s =
     (let s1 = s\<lparr>shutdown_flag := True\<rparr> in
      case send_command_rec pc d [uint (STOP_ALL_REPORTS pc)] s1 of
        (Inl e, s2) \<Rightarrow> (if is_runtime_or_serial e then Inr () else Inl e, s2)
      | (Inr _, s2) \<Rightarrow>
          (case (if reset_on_shutdown s2
                 then send_command_rec pc d [uint (RESET_BOARD pc)] s2
                 else (Inr (), s2)) of
             (Inl e, s3) \<Rightarrow> (if is_runtime_or_serial e then Inr () else Inl e, s3)
           | (Inr _, s3) \<Rightarrow>
               (case serial_port s3 of
                  None \<Rightarrow> (Inl AttributeError, s3)
                | Some t \<Rightarrow>
                    (let s4 = s3\<lparr>serial_port := Some (serial_close t)\<rparr>
                     in (Inr (),
                         if close_loop_on_shutdown s4 then s4\<lparr>loop_stopped := True\<rparr>
                         else s4)))))"
| "send_command_rec pc 0 command s = (Inl RecursionError, s)"
| "send_command_rec pc (Suc d) command s =
     (let frame = int (length command) # command;
          send_message = py_bytes frame
      in case serial_port s of
           None \<Rightarrow>
             (if shutdown_on_exception s
              then (case shutdown_rec pc d s of
                      (Inl e, s1) \<Rightarrow> (Inl e, s1)
                    | (Inr _, s1) \<Rightarrow> (Inl (RuntimeError Usb_cable), s1))
              else (Inl (RuntimeError Usb_cable), s))
         | Some t \<Rightarrow>
             (case send_message of
                Inl _ \<Rightarrow> (Inl UnboundLocalError, s)
              | Inr data \<Rightarrow>
                  (case serial_write t data of
                     (Some e, t') \<Rightarrow> (Inl e, s\<lparr>serial_port := Some t'\<rparr>)
                   | (None, t') \<Rightarrow> (Inr (), s\<lparr>serial_port := Some t'\<rparr>))))"

text \<open>The depth available to a call from the application.\<close>

definition recursion_limit :: nat where
  "recursion_limit = 1000"

definition shutdown :: "private_constants \<Rightarrow> session \<Rightarrow> unit result" where
  "shutdown pc s = shutdown_rec pc recursion_limit s"

definition send_command :: "private_constants \<Rightarrow> int list \<Rightarrow> session \<Rightarrow> unit result" where
  "send_command pc command s = send_command_rec pc recursion_limit command s"

text \<open>
  The recurring lines
  \<^verbatim>\<open>if self.shutdown_on_exception: await self.shutdown()\<close> and then
  \<^verbatim>\<open>raise RuntimeError(...)\<close>.
\<close>

definition shutdown_then_raise :: "private_constants \<Rightarrow> exn \<Rightarrow> session \<Rightarrow> 'a result" where
  "shutdown_then_raise pc e s =
     (if shutdown_on_exception s
      then (case shutdown pc s of
              (Inl e', s') \<Rightarrow> (Inl e', s')
            | (Inr _, s') \<Rightarrow> (Inl e, s'))
      else (Inl e, s))"

subsection \<open>Data operations\<close>

text \<open>
  Reading \<^verbatim>\<open>self.pico_pins[pin]\<close> for a key that is not in the dictionary raises
  \<open>KeyError\<close>.
\<close>

definition digital_write :: "private_constants \<Rightarrow> session \<Rightarrow> int \<Rightarrow> int \<Rightarrow> unit result" where
  "digital_write pc s pin val =
     (case pico_pins s pin of
        None \<Rightarrow> (Inl KeyError, s)
      | Some m \<Rightarrow>
          if m \<noteq> AT_OUTPUT
          then shutdown_then_raise pc (RuntimeError Digital_write_mode_not_set) s
          else send_command pc [uint (DIGITAL_WRITE pc), pin, val] s)"

text \<open>\<^verbatim>\<open>n.to_bytes(2, byteorder='big')\<close>.\<close>

definition to_bytes2 :: "int \<Rightarrow> exn + int list" where
  "to_bytes2 n =
     (if 0 \<le> n \<and> n < 65536 then Inr [n div 256, n mod 256] else Inl OverflowError)"

definition pwm_write :: "private_constants \<Rightarrow> session \<Rightarrow> int \<Rightarrow> int \<Rightarrow> unit result" where
  "pwm_write pc s pin duty_cycle =
     (case pico_pins s pin of
        None \<Rightarrow> (Inl KeyError, s)
      | Some m \<Rightarrow>
          if m \<noteq> AT_PWM_OUTPUT \<and> m \<noteq> AT_SERVO
          then shutdown_then_raise pc (RuntimeError Pwm_write_mode_not_set) s
          else if \<not> (0 \<le> duty_cycle \<and> duty_cycle \<le> maximum_pwm_duty_cycle s)
          then shutdown_then_raise pc (RuntimeError Pwm_duty_cycle_out_of_range) s
          else (case to_bytes2 duty_cycle of
                  Inl e \<Rightarrow> (Inl e, s)
                | Inr v \<Rightarrow>
                    send_command pc [uint (ANALOG_WRITE pc), pin, v ! 0, v ! 1] s))"

text \<open>
  A call of \<^verbatim>\<open>pwm_write(self, pin, duty_cycle=0)\<close> with a list of positional
  arguments: one or two are bound, any other number is a \<open>TypeError\<close> of the call.
\<close>

fun call_pwm_write :: "private_constants \<Rightarrow> session \<Rightarrow> int list \<Rightarrow> unit result" where
  "call_pwm_write pc s [pin] = pwm_write pc s pin 0"
| "call_pwm_write pc s [pin, duty_cycle] = pwm_write pc s pin duty_cycle"
| "call_pwm_write pc s args = (Inl TypeError, s)"

text \<open>\<^verbatim>\<open>xs[i]\<close> on a list, negative indices counting from the end.\<close>

definition py_index :: "'a list \<Rightarrow> int \<Rightarrow> exn + 'a" where
  "py_index xs i =
     (if 0 \<le> i \<and> i < int (length xs) then Inr (xs ! nat i)
      else if - int (length xs) \<le> i \<and> i < 0 then Inr (xs ! nat (int (length xs) + i))
      else Inl IndexError)"

text \<open>
  The duty cycle of \<^verbatim>\<open>servo_write\<close>. Its floating-point expression
  \<^verbatim>\<open>int(value / 180 * servo_range)\<close> is the parameter \<open>scale\<close>, which may raise.
\<close>

definition servo_duty_cycle ::
  "private_constants \<Rightarrow> (int \<Rightarrow> int \<Rightarrow> exn + int) \<Rightarrow> session \<Rightarrow> int \<Rightarrow> int \<Rightarrow> exn + int"
where
  "servo_duty_cycle pc scale s pin_number val =
     (case servo_ranges s pin_number of
        None \<Rightarrow> Inl KeyError
      | Some r \<Rightarrow>
          (case py_index r (MIN_SERVO_DUTY_CYCLE pc) of
             Inl e \<Rightarrow> Inl e
           | Inr min_duty \<Rightarrow>
               (case py_index r (MAX_SERVO_DUTY_CYCLE pc) of
                  Inl e \<Rightarrow> Inl e
                | Inr max_duty \<Rightarrow>
                    (case scale val (max_duty - min_duty) of
                       Inl e \<Rightarrow> Inl e
                     | Inr q \<Rightarrow> Inr (q + min_duty)))))"

definition servo_write ::
  "private_constants \<Rightarrow> (int \<Rightarrow> int \<Rightarrow> exn + int) \<Rightarrow> session \<Rightarrow> int \<Rightarrow> int \<Rightarrow> unit result"
where
  "servo_write pc scale s pin_number val =
     (case pico_pins s pin_number of
        None \<Rightarrow> (Inl KeyError, s)
      | Some m \<Rightarrow>
          if m \<noteq> AT_SERVO
          then shutdown_then_raise pc (RuntimeError Servo_mode_not_set) s
          else (case servo_duty_cycle pc scale s pin_number val of
                  Inl e \<Rightarrow> (Inl e, s)
                | Inr duty_cycle \<Rightarrow> call_pwm_write pc s [pin_number, duty_cycle, 1]))"

text \<open>
  \<^verbatim>\<open>i2c_read\<close>. The register is \<^verbatim>\<open>None\<close> or a number; \<^verbatim>\<open>not register\<close> holds for
  \<^verbatim>\<open>None\<close> and for 0. For port 1 the method checks nothing and stores no callback.
\<close>

definition i2c_read ::
  "private_constants \<Rightarrow> session \<Rightarrow> int \<Rightarrow> int option \<Rightarrow> int \<Rightarrow> callback option \<Rightarrow> int \<Rightarrow> bool
     \<Rightarrow> unit result"
where
  "i2c_read pc s address register number_of_bytes callback i2c_port no_stop =
     (case callback of
        None \<Rightarrow> shutdown_then_raise pc (RuntimeError I2c_read_no_callback) s
      | Some cb \<Rightarrow>
          (let command =
                 [uint (I2C_READ pc), i2c_port, address,
                  (case register of
                     None \<Rightarrow> uint (I2C_NO_REGISTER pc)
                   | Some r \<Rightarrow> if r = 0 then uint (I2C_NO_REGISTER pc) else r),
                  number_of_bytes, of_bool no_stop]
           in if i2c_port = 0
              then (if \<not> i2c_0_active s
                    then shutdown_then_raise pc (RuntimeError (I2c_never_called 0)) s
                    else send_command pc command (s\<lparr>i2c_callback := Some cb\<rparr>))
              else if i2c_port \<noteq> 1
              then (if \<not> i2c_0_active s
                    then shutdown_then_raise pc (RuntimeError (I2c_never_called 1)) s
                    else send_command pc command (s\<lparr>i2c_callback2 := Some cb\<rparr>))
              else send_command pc command s))"

definition i2c_write ::
  "private_constants \<Rightarrow> session \<Rightarrow> int \<Rightarrow> int list \<Rightarrow> int \<Rightarrow> bool \<Rightarrow> unit result"
where
  "i2c_write pc s address args i2c_port no_stop =
     (if i2c_port = 0 \<and> \<not> i2c_0_active s
      then shutdown_then_raise pc (RuntimeError (I2c_never_called 0)) s
      else if i2c_port \<noteq> 0 \<and> \<not> i2c_1_active s
      then shutdown_then_raise pc (RuntimeError (I2c_never_called 2)) s
      else send_command pc
             ([uint (I2C_WRITE pc), i2c_port, address, int (length args), of_bool no_stop]
              @ args) s)"

subsection \<open>Setting pin modes\<close>

text \<open>
  The chain of \<^verbatim>\<open>elif\<close>s of \<^verbatim>\<open>_set_pin_mode\<close> that builds the command; the branch
  of the servo stores the range as well. \<open>None\<close> is the last \<^verbatim>\<open>else\<close>.
\<close>

definition pin_mode_command ::
  "private_constants \<Rightarrow> session \<Rightarrow> int \<Rightarrow> int \<Rightarrow> int \<Rightarrow> int \<Rightarrow> (int list \<times> session) option"
where
  "pin_mode_command pc s pin_number pin_state differential value_range =
     (if pin_state = AT_INPUT
      then Some ([uint (SET_PIN_MODE pc), pin_number, AT_INPUT, 1], s)
      else if pin_state = AT_INPUT_PULLUP
      then Some ([uint (SET_PIN_MODE pc), pin_number, AT_INPUT_PULLUP, 1], s)
      else if pin_state = AT_INPUT_PULL_DOWN
      then Some ([uint (SET_PIN_MODE pc), pin_number, AT_INPUT_PULL_DOWN, 1], s)
      else if pin_state = AT_OUTPUT
      then Some ([uint (SET_PIN_MODE pc), pin_number, AT_OUTPUT], s)
      else if pin_state = AT_ANALOG
      then Some ([uint (SET_PIN_MODE pc), pin_number, AT_ANALOG,
                  drop_bit 8 differential, differential AND 255, 1], s)
      else if pin_state = AT_PWM_OUTPUT
      then Some ([uint (SET_PIN_MODE pc), pin_number, AT_PWM_OUTPUT], s)
      else if pin_state = AT_SERVO
      then Some ([uint (SET_PIN_MODE pc), pin_number, AT_PWM_OUTPUT],
                 s\<lparr>servo_ranges := (servo_ranges s)(pin_number \<mapsto> [differential, value_range])\<rparr>)
      else None)"

text \<open>Storing the callback, when one is given.\<close>

definition store_callback :: "session \<Rightarrow> int \<Rightarrow> int \<Rightarrow> callback option \<Rightarrow> session" where
  "store_callback s pin_number pin_state callback =
     (case callback of
        None \<Rightarrow> s
      | Some cb \<Rightarrow>
          if pin_state = AT_INPUT \<or> pin_state = AT_INPUT_PULLUP \<or> pin_state = AT_INPUT_PULL_DOWN
          then s\<lparr>digital_callbacks := (digital_callbacks s)(pin_number \<mapsto> cb)\<rparr>
          else if pin_state = AT_ANALOG
          then s\<lparr>analog_callbacks := (analog_callbacks s)(pin_number \<mapsto> cb)\<rparr>
          else s)"

text \<open>The second marking of the pin, after the command is built.\<close>

definition mark_pin :: "session \<Rightarrow> int \<Rightarrow> int \<Rightarrow> session" where
  "mark_pin s pin_number pin_state =
     (if pin_state = AT_ANALOG
      then (if pin_number = 0 then s\<lparr>pico_pins := (pico_pins s)(26 \<mapsto> AT_ANALOG)\<rparr>
            else if pin_number = 1 then s\<lparr>pico_pins := (pico_pins s)(27 \<mapsto> AT_ANALOG)\<rparr>
            else if pin_number = 13 then s\<lparr>pico_pins := (pico_pins s)(28 \<mapsto> AT_ANALOG)\<rparr>
            else s)
      else s\<lparr>pico_pins := (pico_pins s)(pin_number \<mapsto> pin_state)\<rparr>)"

definition set_pin_mode ::
  "private_constants \<Rightarrow> session \<Rightarrow> int \<Rightarrow> int \<Rightarrow> int \<Rightarrow> int \<Rightarrow> callback option \<Rightarrow> unit result"
where
  "set_pin_mode pc s pin_number pin_state differential value_range callback =
     (if pin_state \<noteq> AT_ANALOG \<and> pico_pins s pin_number = None
      then shutdown_then_raise pc (RuntimeError Gpio_pin_invalid) s
      else
        (let s1 = (if pin_state = AT_ANALOG
                   then s\<lparr>pico_pins := (pico_pins s)(26 + pin_number \<mapsto> AT_ANALOG)\<rparr>
                   else s\<lparr>pico_pins := (pico_pins s)(pin_number \<mapsto> pin_state)\<rparr>);
             s2 = store_callback s1 pin_number pin_state callback
         in case pin_mode_command pc s2 pin_number pin_state differential value_range of
              None \<Rightarrow> shutdown_then_raise pc (RuntimeError Unknown_pin_state) s2
            | Some (command, s3) \<Rightarrow>
                send_command pc command (mark_pin s3 pin_number pin_state)))"

definition set_pin_mode_analog_input ::
  "private_constants \<Rightarrow> session \<Rightarrow> int \<Rightarrow> int \<Rightarrow> callback option \<Rightarrow> unit result"
where
  "set_pin_mode_analog_input pc s adc_number differential callback =
     (if \<not> (0 \<le> adc_number \<and> adc_number < 5)
      then shutdown_then_raise pc (RuntimeError Invalid_adc_number) s
      else set_pin_mode pc s adc_number AT_ANALOG differential 0 callback)"

definition set_pin_mode_digital_input ::
  "private_constants \<Rightarrow> session \<Rightarrow> int \<Rightarrow> callback option \<Rightarrow> unit result"
where
  "set_pin_mode_digital_input pc s pin_number callback =
     set_pin_mode pc s pin_number AT_INPUT 0 0 callback"



definition set_pin_mode_digital_output :: "private_constants \<Rightarrow> session \<Rightarrow> int \<Rightarrow> unit result" where
  "set_pin_mode_digital_output pc s pin_number =
     set_pin_mode pc s pin_number AT_OUTPUT 0 0 None"


text \<open>
  \<^verbatim>\<open>set_pin_mode_pwm_output\<close>. For a pin that is not a key the method evaluates
  \<^verbatim>\<open>pixel_number\<close>, a name that is not defined anywhere: a \<open>NameError\<close>.
\<close>

definition set_pin_mode_pwm_output :: "private_constants \<Rightarrow> session \<Rightarrow> int \<Rightarrow> unit result" where
  "set_pin_mode_pwm_output pc s pin_number =
     (if pico_pins s pin_number \<noteq> None
      then
        (let s1 = s\<lparr>pico_pins := (pico_pins s)(pin_number \<mapsto> AT_PWM_OUTPUT)\<rparr>
         in if pwm_active_count s1 \<ge> 15
            then shutdown_then_raise pc (RuntimeError Pwm_at_maximum) s1
            else set_pin_mode pc (s1\<lparr>pwm_active_count := pwm_active_count s1 + 1\<rparr>)
                   pin_number AT_PWM_OUTPUT 0 0 None)
      else (Inl NameError, s))"

definition set_pin_mode_i2c ::
  "private_constants \<Rightarrow> session \<Rightarrow> int \<Rightarrow> int \<Rightarrow> int \<Rightarrow> unit result"
where
  "set_pin_mode_i2c pc s i2c_port sda_gpio scl_gpio =
     (if i2c_port \<notin> set [0, 1]
      then shutdown_then_raise pc (RuntimeError I2c_port_invalid) s
      else
        (case i2c_sda_pins s sda_gpio of
           None \<Rightarrow> shutdown_then_raise pc (RuntimeError (I2c_sda_invalid sda_gpio)) s
         | Some sda_owner \<Rightarrow>
             (case i2c_scl_pins s scl_gpio of
                None \<Rightarrow> shutdown_then_raise pc (RuntimeError (I2c_scl_invalid scl_gpio)) s
              | Some scl_owner \<Rightarrow>
                  if sda_owner \<noteq> 255
                  then shutdown_then_raise pc (RuntimeError (I2c_sda_in_use sda_gpio)) s
                  else if scl_owner \<noteq> 255
                  then shutdown_then_raise pc (RuntimeError (I2c_scl_in_use scl_gpio)) s
                  else
                    (let s1 = s\<lparr>i2c_sda_pins := (i2c_sda_pins s)(sda_gpio \<mapsto> i2c_port),
                                i2c_scl_pins := (i2c_scl_pins s)(scl_gpio \<mapsto> i2c_port),
                                pico_pins :=
                                  (pico_pins s)(sda_gpio \<mapsto> AT_I2C, scl_gpio \<mapsto> AT_I2C)\<rparr>;
                         s2 = (if i2c_port = 0 then s1\<lparr>i2c_0_active := True\<rparr>
                               else s1\<lparr>i2c_1_active := True\<rparr>)
                     in send_command pc
                          [uint (I2C_BEGIN pc), i2c_port, sda_gpio, scl_gpio] s2))))"


definition set_pin_mode_servo ::
  "private_constants \<Rightarrow> session \<Rightarrow> int \<Rightarrow> int \<Rightarrow> int \<Rightarrow> unit result"
where
  "set_pin_mode_servo pc s pin_number min_pulse max_pulse =
     (case set_pin_mode pc s pin_number AT_SERVO min_pulse max_pulse None of
        (Inl e, s1) \<Rightarrow> (Inl e, s1)
      | (Inr _, s1) \<Rightarrow>
          (Inr (), s1\<lparr>pico_pins := (pico_pins s1)(pin_number \<mapsto> AT_SERVO)\<rparr>))"


subsection \<open>Report handlers\<close>

text \<open>
  A handler receives the bytes after the report identifier. The list a callback is called
  with is recorded without its time stamp, and where the source converts bytes to a
  floating-point number the bytes themselves are recorded.
\<close>

definition call_back :: "callback \<Rightarrow> int list \<Rightarrow> session \<Rightarrow> session" where
  "call_back cb msg s = s\<lparr>delivered := delivered s @ [(cb, msg)]\<rparr>"

definition report_loop_data :: "private_constants \<Rightarrow> session \<Rightarrow> int list \<Rightarrow> unit result" where
  "report_loop_data pc s data =
     (case loop_back_callback s of
        None \<Rightarrow> (Inr (), s)
      | Some cb \<Rightarrow> (Inr (), call_back cb data s))"

definition report_debug_data :: "private_constants \<Rightarrow> session \<Rightarrow> int list \<Rightarrow> unit result" where
  "report_debug_data pc s data =
     (if length data < 3 then (Inl IndexError, s) else (Inr (), s))"

definition digital_message :: "private_constants \<Rightarrow> session \<Rightarrow> int list \<Rightarrow> unit result" where
  "digital_message pc s data =
     (case data of
        pin # val # _ \<Rightarrow>
          (case digital_callbacks s pin of
             None \<Rightarrow> (Inl KeyError, s)
           | Some cb \<Rightarrow> (Inr (), call_back cb [uint (DIGITAL_REPORT pc), pin, val] s))
      | _ \<Rightarrow> (Inr (), s))"

definition analog_message :: "private_constants \<Rightarrow> session \<Rightarrow> int list \<Rightarrow> unit result" where
  "analog_message pc s data =
     (case data of
        pin # hi # lo # _ \<Rightarrow>
          (case analog_callbacks s pin of
             None \<Rightarrow> (Inl KeyError, s)
           | Some cb \<Rightarrow>
               (Inr (), call_back cb [uint (ANALOG_REPORT pc), pin, push_bit 8 hi + lo] s))
      | _ \<Rightarrow> (Inl IndexError, s))"

definition cpu_temp_message :: "private_constants \<Rightarrow> session \<Rightarrow> int list \<Rightarrow> unit result" where
  "cpu_temp_message pc s data =
     (if length data \<noteq> 4 then (Inl StructError, s)
      else (case cpu_temp_callback s of
              None \<Rightarrow> (Inr (), s)
            | Some cb \<Rightarrow> (Inr (), call_back cb (uint (CPU_TEMP_REPORT pc) # data) s)))"

definition report_unique_id :: "private_constants \<Rightarrow> session \<Rightarrow> int list \<Rightarrow> unit result" where
  "report_unique_id pc s data = (Inr (), s\<lparr>reported_pico_id := reported_pico_id s @ data\<rparr>)"

definition report_firmware_version ::
  "private_constants \<Rightarrow> session \<Rightarrow> int list \<Rightarrow> unit result"
where
  "report_firmware_version pc s data =
     (Inr (), s\<lparr>firmware_version := firmware_version s @ data\<rparr>)"

text \<open>The text of the error reads \<^verbatim>\<open>report[0]\<close>, after the shutdown.\<close>

definition servo_unavailable :: "private_constants \<Rightarrow> session \<Rightarrow> int list \<Rightarrow> unit result" where
  "servo_unavailable pc s report =
     shutdown_then_raise pc
       (case report of [] \<Rightarrow> IndexError | pin # _ \<Rightarrow> RuntimeError (Servo_unavailable pin)) s"

text \<open>Calling a callback that is \<^verbatim>\<open>None\<close> is a \<open>TypeError\<close>.\<close>

definition i2c_read_report :: "private_constants \<Rightarrow> session \<Rightarrow> int list \<Rightarrow> unit result" where
  "i2c_read_report pc s data =
     (case data of
        port # address # others \<Rightarrow>
          (let cb_list = [uint (I2C_READ_REPORT pc), port, address] @ others
           in case (if port \<noteq> 0 then i2c_callback2 s else i2c_callback s) of
                None \<Rightarrow> (Inl TypeError, s)
              | Some cb \<Rightarrow> (Inr (), call_back cb cb_list s))
      | _ \<Rightarrow> (Inl IndexError, s))"

definition i2c_too_few_bytes_received ::
  "private_constants \<Rightarrow> session \<Rightarrow> int list \<Rightarrow> unit result"
where
  "i2c_too_few_bytes_received pc s data =
     (case data of
        [] \<Rightarrow> (Inl IndexError, s)
      | _ # _ \<Rightarrow> if shutdown_on_exception s then shutdown pc s else (Inr (), s))"

definition i2c_too_many_bytes_received ::
  "private_constants \<Rightarrow> session \<Rightarrow> int list \<Rightarrow> unit result"
where
  "i2c_too_many_bytes_received pc s data =
     (case data of
        [] \<Rightarrow> (Inl IndexError, s)
      | _ # _ \<Rightarrow> if shutdown_on_exception s then shutdown pc s else (Inr (), s))"

definition sonar_distance_report ::
  "private_constants \<Rightarrow> session \<Rightarrow> int list \<Rightarrow> unit result"
where
  "sonar_distance_report pc s report =
     (case report of
        [] \<Rightarrow> (Inl IndexError, s)
      | trigger # others \<Rightarrow>
          (case sonar_callbacks s trigger of
             None \<Rightarrow> (Inl KeyError, s)
           | Some cb \<Rightarrow>
               (case others of
                  whole # fraction # _ \<Rightarrow>
                    (Inr (), call_back cb [uint (SONAR_DISTANCE pc), trigger, whole, fraction] s)
                | _ \<Rightarrow> (Inl IndexError, s))))"

text \<open>
  \<^verbatim>\<open>_dht_report\<close>. In the error branch the callback is called without \<^verbatim>\<open>await\<close>:
  the coroutine is created and never run, so nothing is delivered. In the data branch a
  missing callback is a \<open>KeyError\<close> that the method catches.
\<close>

definition dht_report :: "private_constants \<Rightarrow> session \<Rightarrow> int list \<Rightarrow> unit result" where
  "dht_report pc s report =
     (case report of
        [] \<Rightarrow> (Inl IndexError, s)
      | status # others \<Rightarrow>
          if status \<noteq> 0
          then (case others of
                  [] \<Rightarrow> (Inl IndexError, s)
                | pin # _ \<Rightarrow>
                    (case dht_callbacks s pin of
                       None \<Rightarrow> (Inl KeyError, s)
                     | Some cb \<Rightarrow> (Inr (), s)))
          else if length report < 8 then (Inl IndexError, s)
          else (case dht_callbacks s (report ! 1) of
                  None \<Rightarrow> (Inr (), s)
                | Some cb \<Rightarrow>
                    (Inr (), call_back cb (uint (DHT_REPORT pc) # take 8 report) s)))"

definition spi_report :: "private_constants \<Rightarrow> session \<Rightarrow> int list \<Rightarrow> unit result" where
  "spi_report pc s report =
     (case report of
        port # count # others \<Rightarrow>
          (let cb_list = [uint (SPI_REPORT pc), port, count] @ others
           in case (if port \<noteq> 0 then spi_callback2 s else spi_callback s) of
                None \<Rightarrow> (Inl TypeError, s)
              | Some cb \<Rightarrow> (Inr (), call_back cb cb_list s))
      | _ \<Rightarrow> (Inl IndexError, s))"

subsection \<open>The report dispatcher\<close>

text \<open>
  The dictionary \<^verbatim>\<open>report_dispatch\<close>, filled by \<^verbatim>\<open>__init__\<close> in this order; a later
  entry with the same key replaces an earlier one.
\<close>

definition report_dispatch ::
  "private_constants \<Rightarrow> (int \<rightharpoonup> (private_constants \<Rightarrow> session \<Rightarrow> int list \<Rightarrow> unit result))"
where
  "report_dispatch pc =
     [uint (LOOP_COMMAND pc) \<mapsto> report_loop_data,
      uint (DEBUG_PRINT pc) \<mapsto> report_debug_data,
      uint (DIGITAL_REPORT pc) \<mapsto> digital_message,
      uint (ANALOG_REPORT pc) \<mapsto> analog_message,
      uint (CPU_TEMP_REPORT pc) \<mapsto> cpu_temp_message,
      uint (UNIQUE_ID_REPORT pc) \<mapsto> report_unique_id,
      uint (FIRMWARE_REPORT pc) \<mapsto> report_firmware_version,
      uint (SERVO_UNAVAILABLE pc) \<mapsto> servo_unavailable,
      uint (I2C_READ_REPORT pc) \<mapsto> i2c_read_report,
      uint (I2C_TOO_FEW_BYTES_RECEIVED pc) \<mapsto> i2c_too_few_bytes_received,
      uint (I2C_TOO_MANY_BYTES_RECEIVED pc) \<mapsto> i2c_too_many_bytes_received,
      uint (SONAR_DISTANCE pc) \<mapsto> sonar_distance_report,
      uint (DHT_REPORT pc) \<mapsto> dht_report,
      uint (SPI_REPORT pc) \<mapsto> spi_report]"

text \<open>
  Modelled from the spec: \<^verbatim>\<open>read(n)\<close> of the transport, which is not among the sources.
  It returns exactly \<open>n\<close> of the bytes that arrive and suspends until they are there; the
  bytes still to arrive are a list, and \<open>None\<close> is a read that is still suspended when
  the list ends.
\<close>

definition serial_read :: "int list \<Rightarrow> nat \<Rightarrow> (int list \<times> int list) option" where
  "serial_read inbound n =
     (if length inbound < n then None else Some (take n inbound, drop n inbound))"

text \<open>
  One report as \<^verbatim>\<open>_pico_report_dispatcher\<close> reads it: the length, then the packet;
  \<^verbatim>\<open>packet[0]\<close> is the report identifier and \<^verbatim>\<open>packet[1:]\<close> goes to the handler.
\<close>

definition read_report :: "int list \<Rightarrow> ((exn + int \<times> int list) \<times> int list) option" where
  "read_report inbound =
     (case serial_read inbound 1 of
        None \<Rightarrow> None
      | Some (first, rest) \<Rightarrow>
          (let packet_length = hd first
           in case serial_read rest (nat packet_length) of
                None \<Rightarrow> None
              | Some (packet, rest') \<Rightarrow>
                  Some (case packet of
                          [] \<Rightarrow> Inl IndexError
                        | report # data \<Rightarrow> Inr (report, data),
                        rest')))"

text \<open>
  How a run of the dispatcher over the bytes that arrive ends: it left the loop
  (\<^verbatim>\<open>break\<close>), it is suspended in a read, or an exception left the method. The loop
  breaks when the flag is set and, the spec's transport fault, when the port is closed
  (\<^verbatim>\<open>except OSError: break\<close>); without a port \<^verbatim>\<open>self.serial_port.read\<close> is an
  \<open>AttributeError\<close>.
\<close>

datatype dispatcher_end = Stopped | Waiting | Raised exn

function pico_report_dispatcher ::
  "private_constants \<Rightarrow> int list \<Rightarrow> session \<Rightarrow> dispatcher_end \<times> session"
where
  "pico_report_dispatcher pc inbound s =
     (if shutdown_flag s then (Stopped, s)
      else
        (case serial_port s of
           None \<Rightarrow> (Raised AttributeError, s)
         | Some t \<Rightarrow>
             if \<not> is_open t then (Stopped, s)
             else
               (case read_report inbound of
                  None \<Rightarrow> (Waiting, s)
                | Some (Inl e, rest) \<Rightarrow> (Raised e, s)
                | Some (Inr (report, data), rest) \<Rightarrow>
                    (case report_dispatch pc report of
                       None \<Rightarrow> (Raised KeyError, s)
                     | Some handler \<Rightarrow>
                         (case handler pc s data of
                            (Inl e, s') \<Rightarrow> (Raised e, s')
                          | (Inr _, s') \<Rightarrow> pico_report_dispatcher pc rest s')))))"
  by pat_completeness auto
termination
proof (relation "measure (\<lambda>(pc, inbound, s). length inbound)")
  show "wf (measure (\<lambda>(pc, inbound, s). length inbound))"
    by simp
next
  fix pc :: private_constants and inbound :: "int list" and s :: session
    and x2 t x2a and x1 :: "exn + int \<times> int list" and rest b x1a x2b x2c x1b y s'
  assume "read_report inbound = Some x2a" and "(x1, rest) = x2a"
  then have "length rest < length inbound"
    by (auto simp: read_report_def serial_read_def Let_def split: if_splits)
  then show "((pc, rest, s'), pc, inbound, s) \<in> measure (\<lambda>(pc, inbound, s). length inbound)"
    by simp
qed

subsection \<open>A table of constants for evaluation\<close>

text \<open>
  The report identifiers 2, 3, 10, 11, 12, 13 and 20 are the ones the docstrings of the
  source give; the other values are chosen, all different. The theorems that follow hold
  for every table; this one is used where a concrete input is evaluated.
\<close>

definition example_constants :: private_constants where
  "example_constants =
     \<lparr>LOOP_COMMAND = 0, SET_PIN_MODE = 1, DIGITAL_WRITE = 2, ANALOG_WRITE = 3,
      I2C_BEGIN = 4, I2C_READ = 5, I2C_WRITE = 6, I2C_NO_REGISTER = 254,
      SONAR_NEW = 7, DHT_NEW = 8, INIT_NEOPIXELS = 9,
      STOP_ALL_REPORTS = 14, RESET_BOARD = 15,
      DEBUG_PRINT = 99, DIGITAL_REPORT = 2, ANALOG_REPORT = 3, CPU_TEMP_REPORT = 20,
      UNIQUE_ID_REPORT = 6, FIRMWARE_REPORT = 5, SERVO_UNAVAILABLE = 7,
      I2C_READ_REPORT = 10, I2C_TOO_FEW_BYTES_RECEIVED = 8,
      I2C_TOO_MANY_BYTES_RECEIVED = 9, SONAR_DISTANCE = 11, DHT_REPORT = 12,
      SPI_REPORT = 13,
      MAX_SONARS = 4, MAX_DHTS = 2, MAX_PWM_DUTY_CYCLE = 20000,
      MIN_SERVO_DUTY_CYCLE = 0, MAX_SERVO_DUTY_CYCLE = 1\<rparr>"

text \<open>
  A session as the defaults of \<^verbatim>\<open>__init__\<close> make it, with the port open: the state an
  application starts from.
\<close>

definition fresh :: "private_constants \<Rightarrow> session" where
  "fresh pc = manual_open (init pc True True True)"

subsection \<open>Observations\<close>

text \<open>The frames sent so far, and the number of calls of \<^verbatim>\<open>write\<close>.\<close>

definition sent :: "session \<Rightarrow> int list list" where
  "sent s = (case serial_port s of None \<Rightarrow> [] | Some t \<Rightarrow> written t)"

definition write_attempts :: "session \<Rightarrow> nat" where
  "write_attempts s = (case serial_port s of None \<Rightarrow> 0 | Some t \<Rightarrow> write_calls t)"

text \<open>The frames of a shutdown that a failing call triggers, when the session is set so.\<close>

definition shutdown_frames :: "private_constants \<Rightarrow> session \<Rightarrow> int list list" where
  "shutdown_frames pc s =
     (if shutdown_on_exception s
      then [1, uint (STOP_ALL_REPORTS pc)] #
           (if reset_on_shutdown s then [[1, uint (RESET_BOARD pc)]] else [])
      else [])"

text \<open>An application that sets pins to PWM output one after the other.\<close>

fun set_pwm_pins :: "private_constants \<Rightarrow> session \<Rightarrow> int list \<Rightarrow> unit result" where
  "set_pwm_pins pc s [] = (Inr (), s)"
| "set_pwm_pins pc s (pin # pins) =
     (case set_pin_mode_pwm_output pc s pin of
        (Inl e, s') \<Rightarrow> (Inl e, s')
      | (Inr _, s') \<Rightarrow> set_pwm_pins pc s' pins)"

section \<open>Properties\<close>

subsection \<open>Sending and shutting down\<close>

declare pico_report_dispatcher.simps [simp del]

lemmas pin_modes =
  AT_INPUT_def AT_OUTPUT_def AT_PWM_OUTPUT_def AT_INPUT_PULLUP_def AT_INPUT_PULL_DOWN_def
  AT_ANALOG_def AT_SERVO_def AT_SONAR_def AT_DHT_def AT_I2C_def AT_NEO_PIXEL_def
  AT_MODE_NOT_SET_def

lemma byte_range: "0 \<le> uint (w :: byte) \<and> uint w < 256"
  using uint_lt2p [of w] by simp

lemma py_bytes_single: "py_bytes [1, uint (w :: byte)] = Inr [1, uint w]"
  using byte_range [of w] by (simp add: py_bytes_def)

lemma recursion_limit_Suc: "recursion_limit = Suc (Suc 998)"
  by (simp add: recursion_limit_def)

lemma send_command_rec_Some:
  "serial_port s = Some t \<Longrightarrow>
   send_command_rec pc (Suc d) command s =
     (case py_bytes (int (length command) # command) of
        Inl _ \<Rightarrow> (Inl UnboundLocalError, s)
      | Inr data \<Rightarrow>
          (if is_open t
           then (Inr (), s\<lparr>serial_port :=
                   Some (t\<lparr>write_calls := Suc (write_calls t), written := written t @ [data]\<rparr>)\<rparr>)
           else (Inl SerialException,
                 s\<lparr>serial_port := Some (t\<lparr>write_calls := Suc (write_calls t)\<rparr>)\<rparr>)))"
  by (simp add: serial_write_def Let_def split: sum.splits)

text \<open>
  Without a port the two methods call each other until the depth is used up; the
  \<open>RecursionError\<close> is caught by the innermost \<^verbatim>\<open>shutdown\<close>, and every
  \<^verbatim>\<open>shutdown\<close> above it catches the \<^verbatim>\<open>RuntimeError\<close> of its \<^verbatim>\<open>_send_command\<close>.
\<close>

lemma shutdown_rec_None:
  "serial_port s = None \<Longrightarrow> shutdown_rec pc (Suc d) s = (Inr (), s\<lparr>shutdown_flag := True\<rparr>)"
proof (induction d arbitrary: s rule: less_induct)
  case (less d)
  show ?case
  proof (cases d)
    case 0
    then show ?thesis by simp
  next
    case (Suc d')
    note d = this
    show ?thesis
    proof (cases d')
      case 0
      with d less.prems show ?thesis
        by (cases "shutdown_on_exception s") (simp_all add: Let_def)
    next
      case (Suc d'')
      have "d'' < d" using d Suc by simp
      from less.IH [OF this, of "s\<lparr>shutdown_flag := True\<rparr>"] less.prems
      have "shutdown_rec pc (Suc d'') (s\<lparr>shutdown_flag := True\<rparr>) =
              (Inr (), s\<lparr>shutdown_flag := True\<rparr>)"
        by simp
      with d Suc less.prems show ?thesis
        by (cases "shutdown_on_exception s") (simp_all add: Let_def)
    qed
  qed
qed

lemma shutdown_rec_closed:
  "serial_port s = Some t \<Longrightarrow> \<not> is_open t \<Longrightarrow>
   shutdown_rec pc (Suc (Suc d)) s =
     (Inr (), s\<lparr>shutdown_flag := True,
                serial_port := Some (t\<lparr>write_calls := Suc (write_calls t)\<rparr>)\<rparr>)"
  by (simp add: serial_write_def Let_def py_bytes_single)

lemma shutdown_rec_open:
  "serial_port s = Some t \<Longrightarrow> is_open t \<Longrightarrow>
   shutdown_rec pc (Suc (Suc d)) s =
     (Inr (),
      s\<lparr>shutdown_flag := True,
        serial_port := Some
          (if reset_on_shutdown s
           then t\<lparr>write_calls := Suc (Suc (write_calls t)),
                  written := written t @ [[1, uint (STOP_ALL_REPORTS pc)],
                                          [1, uint (RESET_BOARD pc)]],
                  is_open := False\<rparr>
           else t\<lparr>write_calls := Suc (write_calls t),
                  written := written t @ [[1, uint (STOP_ALL_REPORTS pc)]],
                  is_open := False\<rparr>),
        loop_stopped := (close_loop_on_shutdown s \<or> loop_stopped s)\<rparr>)"
  by (simp add: serial_write_def serial_close_def Let_def py_bytes_single)

lemma shutdown_None:
  "serial_port s = None \<Longrightarrow> shutdown pc s = (Inr (), s\<lparr>shutdown_flag := True\<rparr>)"
  unfolding shutdown_def recursion_limit_Suc by (rule shutdown_rec_None)

lemma shutdown_closed:
  "serial_port s = Some t \<Longrightarrow> \<not> is_open t \<Longrightarrow>
   shutdown pc s =
     (Inr (), s\<lparr>shutdown_flag := True,
                serial_port := Some (t\<lparr>write_calls := Suc (write_calls t)\<rparr>)\<rparr>)"
  unfolding shutdown_def recursion_limit_Suc by (rule shutdown_rec_closed)

lemma shutdown_open:
  "serial_port s = Some t \<Longrightarrow> is_open t \<Longrightarrow>
   shutdown pc s =
     (Inr (),
      s\<lparr>shutdown_flag := True,
        serial_port := Some
          (if reset_on_shutdown s
           then t\<lparr>write_calls := Suc (Suc (write_calls t)),
                  written := written t @ [[1, uint (STOP_ALL_REPORTS pc)],
                                          [1, uint (RESET_BOARD pc)]],
                  is_open := False\<rparr>
           else t\<lparr>write_calls := Suc (write_calls t),
                  written := written t @ [[1, uint (STOP_ALL_REPORTS pc)]],
                  is_open := False\<rparr>),
        loop_stopped := (close_loop_on_shutdown s \<or> loop_stopped s)\<rparr>)"
  unfolding shutdown_def recursion_limit_Suc by (rule shutdown_rec_open)

lemma send_command_Some:
  "serial_port s = Some t \<Longrightarrow>
   send_command pc command s =
     (case py_bytes (int (length command) # command) of
        Inl _ \<Rightarrow> (Inl UnboundLocalError, s)
      | Inr data \<Rightarrow>
          (if is_open t
           then (Inr (), s\<lparr>serial_port :=
                   Some (t\<lparr>write_calls := Suc (write_calls t), written := written t @ [data]\<rparr>)\<rparr>)
           else (Inl SerialException,
                 s\<lparr>serial_port := Some (t\<lparr>write_calls := Suc (write_calls t)\<rparr>)\<rparr>)))"
  unfolding send_command_def recursion_limit_Suc by (rule send_command_rec_Some)

lemma send_command_rec_None:
  "serial_port s = None \<Longrightarrow>
   send_command_rec pc (Suc (Suc d)) command s =
     (Inl (RuntimeError Usb_cable),
      if shutdown_on_exception s then s\<lparr>shutdown_flag := True\<rparr> else s)"
  by (simp add: Let_def shutdown_rec_None del: shutdown_rec.simps)

lemma send_command_None:
  "serial_port s = None \<Longrightarrow>
   send_command pc command s =
     (Inl (RuntimeError Usb_cable),
      if shutdown_on_exception s then s\<lparr>shutdown_flag := True\<rparr> else s)"
  unfolding send_command_def recursion_limit_Suc by (rule send_command_rec_None)

text \<open>A shutdown called from the application returns normally.\<close>

lemma shutdown_returns: "fst (shutdown pc s) = Inr ()"
proof (cases "serial_port s")
  case None
  then show ?thesis by (simp add: shutdown_None)
next
  case (Some t)
  then show ?thesis
    by (cases "is_open t") (simp_all add: shutdown_closed shutdown_open)
qed

text \<open>It changes the port, the flag and the loop only.\<close>

lemma shutdown_pico_pins: "pico_pins (snd (shutdown pc s)) = pico_pins s"
proof (cases "serial_port s")
  case None
  then show ?thesis by (simp add: shutdown_None)
next
  case (Some t)
  then show ?thesis
    by (cases "is_open t") (simp_all add: shutdown_closed shutdown_open)
qed

lemma shutdown_pwm_active_count:
  "pwm_active_count (snd (shutdown pc s)) = pwm_active_count s"
proof (cases "serial_port s")
  case None
  then show ?thesis by (simp add: shutdown_None)
next
  case (Some t)
  then show ?thesis
    by (cases "is_open t") (simp_all add: shutdown_closed shutdown_open)
qed

lemma shutdown_then_raise_eq:
  "shutdown_then_raise pc e s =
     (Inl e, if shutdown_on_exception s then snd (shutdown pc s) else s)"
proof -
  obtain r s' where rs: "shutdown pc s = (r, s')"
    by (cases "shutdown pc s")
  with shutdown_returns [of pc s] have "r = Inr ()"
    by simp
  with rs show ?thesis
    by (simp add: shutdown_then_raise_def)
qed

lemma sent_after_shutdown:
  "serial_port s = Some t \<Longrightarrow> is_open t \<Longrightarrow>
   sent (if shutdown_on_exception s then snd (shutdown pc s) else s) =
     sent s @ shutdown_frames pc s"
  by (simp add: shutdown_open sent_def shutdown_frames_def)

subsection \<open>Frames\<close>

lemma py_bytes_ok: "\<forall>x \<in> set xs. 0 \<le> x \<and> x < 256 \<Longrightarrow> py_bytes xs = Inr xs"
  by (simp add: py_bytes_def)

lemma read_report_frame:
  "read_report (int (Suc (length payload)) # report # payload @ rest) =
     Some (Inr (report, payload), rest)"
proof -
  have "nat (1 + int (length payload)) = Suc (length payload)"
    by linarith
  then show ?thesis
    by (simp add: read_report_def serial_read_def Let_def)
qed

lemma send_command_ok:
  assumes "serial_port s = Some t" and "is_open t"
    and "\<forall>x \<in> set command. 0 \<le> x \<and> x < 256" and "length command < 256"
  shows "send_command pc command s =
           (Inr (), s\<lparr>serial_port :=
              Some (t\<lparr>write_calls := Suc (write_calls t),
                      written := written t @ [int (length command) # command]\<rparr>)\<rparr>)"
proof -
  from assms(3,4) have "py_bytes (int (length command) # command) = Inr (int (length command) # command)"
    by (intro py_bytes_ok) simp
  with assms(1,2) show ?thesis
    by (simp add: send_command_Some)
qed

lemma send_command_too_long:
  assumes "serial_port s = Some t" and "255 < length command"
  shows "send_command pc command s = (Inl UnboundLocalError, s)"
proof -
  from assms(2) have "py_bytes (int (length command) # command) = Inl ValueError"
    by (simp add: py_bytes_def)
  with assms(1) show ?thesis
    by (simp add: send_command_Some)
qed

lemma fresh_port: "serial_port (fresh pc) = Some new_transport"
  by (simp add: fresh_def manual_open_def)

lemma new_transport_open: "is_open new_transport"
  by (simp add: new_transport_def)

text \<open>
  Claim C3. For a command identifier and a payload of bytes, on a session whose port is
  open: when the payload has at most 254 bytes, \<^verbatim>\<open>_send_command\<close> completes and sends
  exactly the frame made of the length byte \<open>1 + length payload\<close>, the identifier and
  the payload, and the dispatcher reads that frame back as the same identifier and the same
  payload, leaving the bytes after it; when the payload has 255 bytes, \<^verbatim>\<open>_send_command\<close>
  raises and sends nothing.
\<close>

theorem frame_round_trip:
  assumes "serial_port s = Some t" and "is_open t"
    and "0 \<le> command_id \<and> command_id < 256"
    and "\<forall>b \<in> set payload. 0 \<le> b \<and> b < 256"
  shows "(length payload \<le> 254 \<longrightarrow>
            fst (send_command pc (command_id # payload) s) = Inr () \<and>
            sent (snd (send_command pc (command_id # payload) s)) =
              sent s @ [int (1 + length payload) # command_id # payload] \<and>
            read_report ((int (1 + length payload) # command_id # payload) @ rest) =
              Some (Inr (command_id, payload), rest)) \<and>
         (length payload = 255 \<longrightarrow>
            send_command pc (command_id # payload) s = (Inl UnboundLocalError, s))"
proof (intro conjI impI)
  assume len: "length payload \<le> 254"
  from assms(3,4) have bytes: "\<forall>x \<in> set (command_id # payload). 0 \<le> x \<and> x < 256"
    by simp
  from len have "length (command_id # payload) < 256"
    by simp
  from send_command_ok [OF assms(1,2) bytes this, of pc]
  show "fst (send_command pc (command_id # payload) s) = Inr ()"
    and "sent (snd (send_command pc (command_id # payload) s)) =
           sent s @ [int (1 + length payload) # command_id # payload]"
    using assms(1) by (simp_all add: sent_def)
  show "read_report ((int (1 + length payload) # command_id # payload) @ rest) =
          Some (Inr (command_id, payload), rest)"
    using read_report_frame [of payload command_id rest] by simp
next
  assume "length payload = 255"
  then have "255 < length (command_id # payload)"
    by simp
  from send_command_too_long [OF assms(1) this]
  show "send_command pc (command_id # payload) s = (Inl UnboundLocalError, s)" .
qed

theorem frame_round_trip_witness:
  "fst (send_command example_constants [2, 2, 1] (fresh example_constants)) = Inr () \<and>
   sent (snd (send_command example_constants [2, 2, 1] (fresh example_constants))) =
     [[3, 2, 2, 1]] \<and>
   read_report [3, 2, 2, 1, 7] = Some (Inr (2, [2, 1]), [7]) \<and>
   send_command example_constants (2 # replicate 255 0) (fresh example_constants) =
     (Inl UnboundLocalError, fresh example_constants)"
  using frame_round_trip [OF fresh_port new_transport_open,
      where command_id = 2 and payload = "[2, 1]" and pc = example_constants and rest = "[7]"]
    frame_round_trip [OF fresh_port new_transport_open,
      where command_id = 2 and payload = "replicate 255 0" and pc = example_constants]
  by (simp add: sent_def fresh_port new_transport_def)

subsection \<open>PWM reservations\<close>

lemma set_pin_mode_pwm:
  "pico_pins s pin \<noteq> None \<Longrightarrow>
   set_pin_mode pc s pin AT_PWM_OUTPUT d v None =
     send_command pc [uint (SET_PIN_MODE pc), pin, AT_PWM_OUTPUT]
       (s\<lparr>pico_pins := (pico_pins s)(pin \<mapsto> AT_PWM_OUTPUT)\<rparr>)"
  by (auto simp: set_pin_mode_def pin_mode_command_def store_callback_def mark_pin_def pin_modes)

lemma set_pin_mode_pwm_output_full:
  "pico_pins s pin \<noteq> None \<Longrightarrow> 15 \<le> pwm_active_count s \<Longrightarrow>
   set_pin_mode_pwm_output pc s pin =
     (Inl (RuntimeError Pwm_at_maximum),
      if shutdown_on_exception s
      then snd (shutdown pc (s\<lparr>pico_pins := (pico_pins s)(pin \<mapsto> AT_PWM_OUTPUT)\<rparr>))
      else s\<lparr>pico_pins := (pico_pins s)(pin \<mapsto> AT_PWM_OUTPUT)\<rparr>)"
  by (simp add: set_pin_mode_pwm_output_def Let_def shutdown_then_raise_eq)

lemma set_pin_mode_pwm_output_ok:
  assumes "serial_port s = Some t" and "is_open t" and "pico_pins s pin \<noteq> None"
    and "pwm_active_count s < 15" and "0 \<le> pin \<and> pin < 256"
  shows "set_pin_mode_pwm_output pc s pin =
           (Inr (),
            s\<lparr>pwm_active_count := pwm_active_count s + 1,
              serial_port := Some (t\<lparr>write_calls := Suc (write_calls t),
                written := written t @ [[3, uint (SET_PIN_MODE pc), pin, AT_PWM_OUTPUT]]\<rparr>),
              pico_pins := (pico_pins s)(pin \<mapsto> AT_PWM_OUTPUT)\<rparr>)"
proof -
  let ?s1 = "s\<lparr>pwm_active_count := pwm_active_count s + 1,
               pico_pins := (pico_pins s)(pin \<mapsto> AT_PWM_OUTPUT)\<rparr>"
  have port: "serial_port ?s1 = Some t"
    using assms(1) by simp
  have bytes: "\<forall>x \<in> set [uint (SET_PIN_MODE pc), pin, AT_PWM_OUTPUT]. 0 \<le> x \<and> x < 256"
    using assms(5) byte_range [of "SET_PIN_MODE pc"] by (simp add: AT_PWM_OUTPUT_def)
  have "set_pin_mode_pwm_output pc s pin =
          send_command pc [uint (SET_PIN_MODE pc), pin, AT_PWM_OUTPUT] ?s1"
    using assms(3,4) by (simp add: set_pin_mode_pwm_output_def Let_def set_pin_mode_pwm)
  also have "\<dots> = (Inr (), ?s1\<lparr>serial_port := Some (t\<lparr>write_calls := Suc (write_calls t),
                written := written t @ [int (length [uint (SET_PIN_MODE pc), pin, AT_PWM_OUTPUT])
                  # [uint (SET_PIN_MODE pc), pin, AT_PWM_OUTPUT]]\<rparr>)\<rparr>)"
    by (rule send_command_ok [OF port assms(2) bytes]) simp
  finally show ?thesis
    by simp
qed

lemma set_pwm_pins_ok:
  assumes "serial_port s = Some t" and "is_open t"
    and "\<forall>p \<in> set pins. pico_pins s p \<noteq> None \<and> 0 \<le> p \<and> p < 256"
    and "pwm_active_count s + int (length pins) \<le> 15"
  shows "fst (set_pwm_pins pc s pins) = Inr () \<and>
         pwm_active_count (snd (set_pwm_pins pc s pins)) = pwm_active_count s + int (length pins) \<and>
         (\<forall>p. p \<notin> set pins \<longrightarrow> pico_pins (snd (set_pwm_pins pc s pins)) p = pico_pins s p) \<and>
         (\<exists>t'. serial_port (snd (set_pwm_pins pc s pins)) = Some t' \<and> is_open t')"
  using assms
proof (induction pins arbitrary: s t)
  case Nil
  then show ?case by simp
next
  case (Cons pin pins)
  let ?t1 = "t\<lparr>write_calls := Suc (write_calls t),
                written := written t @ [[3, uint (SET_PIN_MODE pc), pin, AT_PWM_OUTPUT]]\<rparr>"
  let ?s1 = "s\<lparr>pwm_active_count := pwm_active_count s + 1,
              serial_port := Some ?t1,
              pico_pins := (pico_pins s)(pin \<mapsto> AT_PWM_OUTPUT)\<rparr>"
  from Cons.prems have step: "set_pin_mode_pwm_output pc s pin = (Inr (), ?s1)"
    by (intro set_pin_mode_pwm_output_ok) auto
  have "serial_port ?s1 = Some ?t1" and "is_open ?t1"
    using Cons.prems(2) by simp_all
  moreover have "\<forall>p \<in> set pins. pico_pins ?s1 p \<noteq> None \<and> 0 \<le> p \<and> p < 256"
    using Cons.prems(3) by simp
  moreover have "pwm_active_count ?s1 + int (length pins) \<le> 15"
    using Cons.prems(4) by simp
  ultimately have IH:
    "fst (set_pwm_pins pc ?s1 pins) = Inr () \<and>
     pwm_active_count (snd (set_pwm_pins pc ?s1 pins)) = pwm_active_count ?s1 + int (length pins) \<and>
     (\<forall>p. p \<notin> set pins \<longrightarrow> pico_pins (snd (set_pwm_pins pc ?s1 pins)) p = pico_pins ?s1 p) \<and>
     (\<exists>t'. serial_port (snd (set_pwm_pins pc ?s1 pins)) = Some t' \<and> is_open t')"
    by (rule Cons.IH)
  have "set_pwm_pins pc s (pin # pins) = set_pwm_pins pc ?s1 pins"
    using step by simp
  with IH show ?case
    by simp
qed

lemma dict_of_keys_apply:
  "dict_of_keys ks v k = (if k \<in> set ks then Some v else None)"
  unfolding dict_of_keys_def by (induction ks) simp_all

lemma set_gpio_pins: "set gpio_pins = {0..22} \<union> {25..28} \<union> {64}"
  by (auto simp: gpio_pins_def)

lemma fresh_pico_pins:
  "pico_pins (fresh pc) pin =
     (if (0 \<le> pin \<and> pin \<le> 22) \<or> (25 \<le> pin \<and> pin \<le> 28) \<or> pin = 64
      then Some AT_MODE_NOT_SET else None)"
  by (simp add: fresh_def manual_open_def init_def dict_of_keys_apply set_gpio_pins)

lemma fresh_pwm_active_count: "pwm_active_count (fresh pc) = 0"
  by (simp add: fresh_def manual_open_def init_def)

lemma fifteen_pwm_pins:
  "fst (set_pwm_pins pc (fresh pc) [0, 1, 2, 3, 4, 5, 6, 7, 8, 9, 10, 11, 12, 13, 14]) = Inr () \<and>
   pwm_active_count
     (snd (set_pwm_pins pc (fresh pc) [0, 1, 2, 3, 4, 5, 6, 7, 8, 9, 10, 11, 12, 13, 14])) = 15 \<and>
   pico_pins
     (snd (set_pwm_pins pc (fresh pc) [0, 1, 2, 3, 4, 5, 6, 7, 8, 9, 10, 11, 12, 13, 14])) 15 =
     Some AT_MODE_NOT_SET"
proof -
  have "\<forall>p \<in> set [0, 1, 2, 3, 4, 5, 6, 7, 8, 9, 10, 11, 12, 13, 14 :: int].
          pico_pins (fresh pc) p \<noteq> None \<and> 0 \<le> p \<and> p < 256"
    by (simp add: fresh_pico_pins)
  moreover have "pwm_active_count (fresh pc) +
      int (length [0, 1, 2, 3, 4, 5, 6, 7, 8, 9, 10, 11, 12, 13, 14 :: int]) \<le> 15"
    by (simp add: fresh_pwm_active_count)
  ultimately show ?thesis
    using set_pwm_pins_ok [OF fresh_port new_transport_open,
        where pins = "[0, 1, 2, 3, 4, 5, 6, 7, 8, 9, 10, 11, 12, 13, 14]" and pc = pc and pc1 = pc]
    by (simp add: fresh_pwm_active_count fresh_pico_pins del: set_pwm_pins.simps)
qed

text \<open>
  Claim C10. When \<^verbatim>\<open>set_pin_mode_pwm_output\<close> is called for a pin of the table while the
  count of active PWM pins has reached the ceiling the method tests (15 or more), the call
  raises the error of the maximum, the table has the pin as PWM output afterwards and is
  otherwise as before, and the count is not changed.
\<close>

theorem pwm_failure_marks_pin:
  assumes "pico_pins s pin \<noteq> None" and "15 \<le> pwm_active_count s"
  shows "fst (set_pin_mode_pwm_output pc s pin) = Inl (RuntimeError Pwm_at_maximum) \<and>
         pico_pins (snd (set_pin_mode_pwm_output pc s pin)) =
           (pico_pins s)(pin \<mapsto> AT_PWM_OUTPUT) \<and>
         pwm_active_count (snd (set_pin_mode_pwm_output pc s pin)) = pwm_active_count s"
  using assms
  by (simp add: set_pin_mode_pwm_output_full shutdown_pico_pins shutdown_pwm_active_count)

theorem pwm_failure_marks_pin_witness:
  "pico_pins (snd (set_pwm_pins example_constants (fresh example_constants) [0, 1, 2, 3, 4, 5, 6, 7, 8, 9, 10, 11, 12, 13, 14])) 15 =
     Some AT_MODE_NOT_SET \<and>
   fst (set_pin_mode_pwm_output example_constants
          (snd (set_pwm_pins example_constants (fresh example_constants) [0, 1, 2, 3, 4, 5, 6, 7, 8, 9, 10, 11, 12, 13, 14])) 15) =
     Inl (RuntimeError Pwm_at_maximum) \<and>
   pico_pins (snd (set_pin_mode_pwm_output example_constants
          (snd (set_pwm_pins example_constants (fresh example_constants) [0, 1, 2, 3, 4, 5, 6, 7, 8, 9, 10, 11, 12, 13, 14])) 15)) 15 =
     Some AT_PWM_OUTPUT \<and>
   pwm_active_count (snd (set_pin_mode_pwm_output example_constants
          (snd (set_pwm_pins example_constants (fresh example_constants) [0, 1, 2, 3, 4, 5, 6, 7, 8, 9, 10, 11, 12, 13, 14])) 15)) = 15"
  using fifteen_pwm_pins [of example_constants]
    pwm_failure_marks_pin
      [of "snd (set_pwm_pins example_constants (fresh example_constants)
                  [0, 1, 2, 3, 4, 5, 6, 7, 8, 9, 10, 11, 12, 13, 14])"
          15 example_constants]
  by (simp del: set_pwm_pins.simps)

text \<open>
  Claim C2. The code at the input of the claim: from a fresh session the pins 0 to 14 are
  set to PWM output, fifteen calls that all succeed and bring the count to 15; the
  sixteenth call, for pin 15, raises the error of the maximum and leaves the count at 15.
  The sixteenth reservation fails where the claim, and the docstring of the method, allow
  sixteen.
\<close>

theorem sixteenth_pwm_reservation_fails:
  "fst (set_pwm_pins pc (fresh pc) [0, 1, 2, 3, 4, 5, 6, 7, 8, 9, 10, 11, 12, 13, 14]) = Inr () \<and>
   pwm_active_count (snd (set_pwm_pins pc (fresh pc) [0, 1, 2, 3, 4, 5, 6, 7, 8, 9, 10, 11, 12, 13, 14])) = 15 \<and>
   fst (set_pin_mode_pwm_output pc (snd (set_pwm_pins pc (fresh pc) [0, 1, 2, 3, 4, 5, 6, 7, 8, 9, 10, 11, 12, 13, 14])) 15) =
     Inl (RuntimeError Pwm_at_maximum) \<and>
   pwm_active_count
     (snd (set_pin_mode_pwm_output pc (snd (set_pwm_pins pc (fresh pc) [0, 1, 2, 3, 4, 5, 6, 7, 8, 9, 10, 11, 12, 13, 14])) 15)) = 15"
  using fifteen_pwm_pins [of pc]
    set_pin_mode_pwm_output_full [of "snd (set_pwm_pins pc (fresh pc) [0, 1, 2, 3, 4, 5, 6, 7, 8, 9, 10, 11, 12, 13, 14])" 15 pc]
  by (simp add: shutdown_pwm_active_count del: set_pwm_pins.simps)

subsection \<open>Pins outside the table\<close>

lemma set_pin_mode_invalid:
  "pin_state \<noteq> AT_ANALOG \<Longrightarrow> pico_pins s pin = None \<Longrightarrow>
   set_pin_mode pc s pin pin_state d v cb =
     (Inl (RuntimeError Gpio_pin_invalid),
      if shutdown_on_exception s then snd (shutdown pc s) else s)"
  by (simp add: set_pin_mode_def shutdown_then_raise_eq)


subsection \<open>What a successful call leaves behind\<close>

lemma send_command_Inr:
  assumes "send_command pc command s = (Inr (), s')"
  shows "\<exists>t. serial_port s = Some t \<and> is_open t \<and>
             (\<forall>x \<in> set command. 0 \<le> x \<and> x < 256) \<and> length command < 256 \<and>
             s' = s\<lparr>serial_port :=
                    Some (t\<lparr>write_calls := Suc (write_calls t),
                            written := written t @ [int (length command) # command]\<rparr>)\<rparr>"
proof (cases "serial_port s")
  case None
  with assms show ?thesis
    by (simp add: send_command_None)
next
  case (Some t)
  with assms show ?thesis
    by (auto simp: send_command_Some py_bytes_def split: if_splits)
qed

lemma set_pin_mode_digital_output_eq:
  "pico_pins s pin \<noteq> None \<Longrightarrow>
   set_pin_mode_digital_output pc s pin =
     send_command pc [uint (SET_PIN_MODE pc), pin, AT_OUTPUT]
       (s\<lparr>pico_pins := (pico_pins s)(pin \<mapsto> AT_OUTPUT)\<rparr>)"
  by (auto simp: set_pin_mode_digital_output_def set_pin_mode_def pin_mode_command_def
      store_callback_def mark_pin_def pin_modes)

lemma set_pin_mode_digital_input_eq:
  "pico_pins s pin \<noteq> None \<Longrightarrow>
   \<exists>s'. set_pin_mode_digital_input pc s pin cb =
          send_command pc [uint (SET_PIN_MODE pc), pin, AT_INPUT, 1] s' \<and>
        serial_port s' = serial_port s \<and>
        pico_pins s' = (pico_pins s)(pin \<mapsto> AT_INPUT)"
  by (cases cb)
     (auto simp: set_pin_mode_digital_input_def set_pin_mode_def pin_mode_command_def
      store_callback_def mark_pin_def pin_modes)

lemma set_pin_mode_digital_output_Inr:
  assumes "set_pin_mode_digital_output pc s pin = (Inr (), s1)"
  shows "\<exists>t. serial_port s = Some t \<and> is_open t \<and> 0 \<le> pin \<and> pin < 256 \<and>
             s1 = s\<lparr>serial_port :=
                    Some (t\<lparr>write_calls := Suc (write_calls t),
                            written := written t @ [[3, uint (SET_PIN_MODE pc), pin, AT_OUTPUT]]\<rparr>),
                    pico_pins := (pico_pins s)(pin \<mapsto> AT_OUTPUT)\<rparr>"
proof (cases "pico_pins s pin")
  case None
  with assms show ?thesis
    by (simp add: set_pin_mode_digital_output_def set_pin_mode_invalid pin_modes)
next
  case (Some m)
  with assms have "send_command pc [uint (SET_PIN_MODE pc), pin, AT_OUTPUT]
       (s\<lparr>pico_pins := (pico_pins s)(pin \<mapsto> AT_OUTPUT)\<rparr>) = (Inr (), s1)"
    by (simp add: set_pin_mode_digital_output_eq)
  from send_command_Inr [OF this] show ?thesis
    by auto
qed

lemma example_values:
  "SET_PIN_MODE example_constants = 1" "DIGITAL_WRITE example_constants = 2"
  "I2C_BEGIN example_constants = 4" "I2C_READ example_constants = 5"
  "I2C_WRITE example_constants = 6" "I2C_NO_REGISTER example_constants = 254"
  "SONAR_NEW example_constants = 7" "INIT_NEOPIXELS example_constants = 9"
  "STOP_ALL_REPORTS example_constants = 14" "RESET_BOARD example_constants = 15"
  "DIGITAL_REPORT example_constants = 2" "ANALOG_REPORT example_constants = 3"
  "SONAR_DISTANCE example_constants = 11" "MAX_SONARS example_constants = 4"
  "MIN_SERVO_DUTY_CYCLE example_constants = 0" "MAX_SERVO_DUTY_CYCLE example_constants = 1"
  by (simp_all add: example_constants_def)

lemma digital_output_on_pin_2:
  "set_pin_mode_digital_output example_constants (fresh example_constants) 2 =
     (Inr (),
      fresh example_constants
        \<lparr>serial_port := Some (new_transport\<lparr>write_calls := 1, written := [[3, 1, 2, 1]]\<rparr>),
         pico_pins := (pico_pins (fresh example_constants))(2 \<mapsto> AT_OUTPUT)\<rparr>)"
proof -
  let ?pc = example_constants
  let ?s = "fresh ?pc\<lparr>pico_pins := (pico_pins (fresh ?pc))(2 \<mapsto> AT_OUTPUT)\<rparr>"
  have "serial_port ?s = Some new_transport"
    by (simp add: fresh_port)
  from send_command_ok [OF this new_transport_open, of "[uint (SET_PIN_MODE ?pc), 2, AT_OUTPUT]" ?pc]
  show ?thesis
    by (simp add: set_pin_mode_digital_output_eq fresh_pico_pins example_values
        new_transport_def pin_modes)
qed

subsection \<open>Shutting down twice\<close>

lemma shutdown_port:
  "serial_port (snd (shutdown pc s)) =
     (case serial_port s of
        None \<Rightarrow> None
      | Some t \<Rightarrow>
          Some (if is_open t
                then (if reset_on_shutdown s
                      then t\<lparr>write_calls := Suc (Suc (write_calls t)),
                             written := written t @ [[1, uint (STOP_ALL_REPORTS pc)],
                                                     [1, uint (RESET_BOARD pc)]],
                             is_open := False\<rparr>
                      else t\<lparr>write_calls := Suc (write_calls t),
                             written := written t @ [[1, uint (STOP_ALL_REPORTS pc)]],
                             is_open := False\<rparr>)
                else t\<lparr>write_calls := Suc (write_calls t)\<rparr>))"
proof (cases "serial_port s")
  case None
  then show ?thesis by (simp add: shutdown_None)
next
  case (Some t)
  then show ?thesis
    by (cases "is_open t") (simp_all add: shutdown_closed shutdown_open)
qed

lemma shutdown_port_closed:
  "serial_port (snd (shutdown pc s)) = Some t \<Longrightarrow> \<not> is_open t"
  by (auto simp: shutdown_port split: option.splits if_splits)

text \<open>
  Claim C6, as the code has it. \<^verbatim>\<open>shutdown\<close> never reads \<^verbatim>\<open>shutdown_flag\<close>. A second
  call returns normally and leaves the session as the first call left it, with one
  difference: when there is a port, the second call calls \<^verbatim>\<open>write\<close> once more (for the
  command that stops the reports); the closed port refuses it, the exception is caught, and
  nothing more is sent or closed.
\<close>

theorem second_shutdown_attempts_a_write:
  "fst (shutdown pc (snd (shutdown pc s))) = Inr () \<and>
   snd (shutdown pc (snd (shutdown pc s))) =
     (snd (shutdown pc s))
       \<lparr>serial_port :=
          map_option (\<lambda>t. t\<lparr>write_calls := Suc (write_calls t)\<rparr>)
            (serial_port (snd (shutdown pc s)))\<rparr>"
proof (cases "serial_port (snd (shutdown pc s))")
  case None
  then have "serial_port s = None"
    by (simp add: shutdown_port split: option.splits)
  then show ?thesis
    by (simp add: shutdown_None)
next
  case (Some t1)
  then have closed: "\<not> is_open t1"
    by (rule shutdown_port_closed)
  have flag: "shutdown_flag (snd (shutdown pc s))"
  proof (cases "serial_port s")
    case None
    then show ?thesis by (simp add: shutdown_None)
  next
    case (Some t)
    then show ?thesis
      by (cases "is_open t") (simp_all add: shutdown_closed shutdown_open)
  qed
  from shutdown_closed [OF Some closed, of pc] Some flag show ?thesis
    by simp
qed

theorem second_shutdown_attempts_a_write_witness:
  "write_attempts (snd (shutdown example_constants (fresh example_constants))) = 2 \<and>
   snd (shutdown example_constants (snd (shutdown example_constants (fresh example_constants)))) =
     (snd (shutdown example_constants (fresh example_constants)))
       \<lparr>serial_port :=
          Some \<lparr>is_open = False, written = [[1, 14], [1, 15]], write_calls = 3\<rparr>\<rparr>"
proof -
  have "snd (shutdown example_constants (fresh example_constants)) =
      fresh example_constants
       \<lparr>shutdown_flag := True,
        serial_port := Some \<lparr>is_open = False, written = [[1, 14], [1, 15]], write_calls = 2\<rparr>,
        loop_stopped := True\<rparr>"
    using shutdown_open [OF fresh_port new_transport_open, of example_constants example_constants]
    by (simp add: new_transport_def fresh_def manual_open_def init_def example_values)
  with second_shutdown_attempts_a_write [of example_constants "fresh example_constants"]
  show ?thesis
    by (simp add: write_attempts_def)
qed

text \<open>
  The claim as the spec states it fails: after the shutdown of a fresh session the port has
  seen two calls of \<^verbatim>\<open>write\<close>, after a second shutdown three.
\<close>

theorem second_shutdown_writes_counterexample:
  "write_attempts (snd (shutdown example_constants (fresh example_constants))) = 2 \<and>
   write_attempts
     (snd (shutdown example_constants
        (snd (shutdown example_constants (fresh example_constants))))) = 3"
proof -
  have first: "snd (shutdown example_constants (fresh example_constants)) =
      fresh example_constants
       \<lparr>shutdown_flag := True,
        serial_port := Some \<lparr>is_open = False, written = [[1, 14], [1, 15]], write_calls = 2\<rparr>,
        loop_stopped := True\<rparr>"
    using shutdown_open [OF fresh_port new_transport_open, of example_constants example_constants]
    by (simp add: new_transport_def fresh_def manual_open_def init_def example_values)
  let ?s1 = "fresh example_constants
       \<lparr>shutdown_flag := True,
        serial_port := Some \<lparr>is_open = False, written = [[1, 14], [1, 15]], write_calls = 2\<rparr>,
        loop_stopped := True\<rparr>"
  have "serial_port ?s1 = Some \<lparr>is_open = False, written = [[1, 14], [1, 15]], write_calls = 2\<rparr>"
    and "\<not> is_open \<lparr>is_open = False, written = [[1, 14], [1, 15]], write_calls = 2\<rparr>"
    by simp_all
  from shutdown_closed [OF this, of example_constants] first show ?thesis
    by (simp add: write_attempts_def)
qed

subsection \<open>The dispatcher\<close>

lemma dispatcher_step:
  assumes "\<not> shutdown_flag s" and "serial_port s = Some t" and "is_open t"
  shows "pico_report_dispatcher pc (int (Suc (length data)) # report # data @ rest) s =
           (case report_dispatch pc report of
              None \<Rightarrow> (Raised KeyError, s)
            | Some handler \<Rightarrow>
                (case handler pc s data of
                   (Inl e, s') \<Rightarrow> (Raised e, s')
                 | (Inr _, s') \<Rightarrow> pico_report_dispatcher pc rest s'))"
  using assms
  by (subst pico_report_dispatcher.simps) (simp add: read_report_frame [simplified])

lemma dispatcher_unknown_report:
  assumes "\<not> shutdown_flag s" and "serial_port s = Some t" and "is_open t"
    and "report_dispatch pc report = None"
  shows "pico_report_dispatcher pc (int (Suc (length data)) # report # data @ rest) s =
           (Raised KeyError, s)"
  using dispatcher_step [OF assms(1-3)] assms(4) by simp

lemma fresh_shutdown_flag: "\<not> shutdown_flag (fresh pc)"
  by (simp add: fresh_def manual_open_def init_def)

lemma example_report_200: "report_dispatch example_constants 200 = None"
  by (simp add: report_dispatch_def example_constants_def)

lemma example_handlers:
  "report_dispatch example_constants 2 = Some digital_message"
  "report_dispatch example_constants 3 = Some analog_message"
  "report_dispatch example_constants 11 = Some sonar_distance_report"
  by (simp_all add: report_dispatch_def example_constants_def)

lemma fresh_callbacks:
  "digital_callbacks (fresh pc) = Map.empty"
  "analog_callbacks (fresh pc) = Map.empty"
  "sonar_callbacks (fresh pc) = Map.empty"
  by (simp_all add: fresh_def manual_open_def init_def)

lemma digital_input_on_pin_5:
  "set_pin_mode_digital_input example_constants (fresh example_constants) 5 None =
     (Inr (),
      fresh example_constants
        \<lparr>serial_port := Some (new_transport\<lparr>write_calls := 1, written := [[4, 1, 5, 0, 1]]\<rparr>),
         pico_pins := (pico_pins (fresh example_constants))(5 \<mapsto> AT_INPUT)\<rparr>)"
proof -
  let ?pc = example_constants
  let ?s = "fresh ?pc\<lparr>pico_pins := (pico_pins (fresh ?pc))(5 \<mapsto> AT_INPUT)\<rparr>"
  have "serial_port ?s = Some new_transport"
    by (simp add: fresh_port)
  from send_command_ok [OF this new_transport_open,
      of "[uint (SET_PIN_MODE ?pc), 5, AT_INPUT, 1]" ?pc]
  show ?thesis
    by (simp add: set_pin_mode_digital_input_def set_pin_mode_def pin_mode_command_def
        store_callback_def mark_pin_def fresh_pico_pins example_values new_transport_def
        pin_modes)
qed

text \<open>
  Claim C7, as the code has it. When the dispatcher of a running session (flag not set,
  port open) reads a report whose identifier is not a key of \<^verbatim>\<open>report_dispatch\<close>, the
  lookup raises \<open>KeyError\<close>, which leaves the method: the dispatcher stops. Nothing
  catches it and \<^verbatim>\<open>shutdown\<close> is not called: the session, its flag and its open port are
  exactly as before the report.
\<close>

theorem unknown_report_id_raises:
  assumes "\<not> shutdown_flag s" and "serial_port s = Some t" and "is_open t"
    and "report_dispatch pc report = None"
  shows "pico_report_dispatcher pc (int (Suc (length data)) # report # data @ rest) s =
           (Raised KeyError, s)"
  using assms by (rule dispatcher_unknown_report)

theorem unknown_report_id_raises_witness:
  "report_dispatch example_constants 200 = None \<and>
   pico_report_dispatcher example_constants [2, 200, 0] (fresh example_constants) =
     (Raised KeyError, fresh example_constants)"
  using unknown_report_id_raises [OF fresh_shutdown_flag fresh_port new_transport_open
      example_report_200, of "[0]" "[]"]
  by (simp add: example_report_200)

text \<open>
  The claim as the spec states it fails: after the report with identifier 200 has stopped the
  dispatcher of a fresh session, the flag is not set, the port is open and no command of a
  shutdown was sent.
\<close>

theorem unknown_report_id_counterexample:
  "pico_report_dispatcher example_constants [2, 200, 0] (fresh example_constants) =
     (Raised KeyError, fresh example_constants) \<and>
   \<not> shutdown_flag (fresh example_constants) \<and>
   serial_port (fresh example_constants) = Some new_transport \<and>
   is_open new_transport \<and>
   sent (fresh example_constants) = []"
  using dispatcher_unknown_report [OF fresh_shutdown_flag fresh_port new_transport_open
      example_report_200, of "[0]" "[]"]
  by (simp add: fresh_shutdown_flag fresh_port new_transport_open sent_def new_transport_def)

text \<open>
  Claim C8. The code at inputs of the claim. Pin 5 is set to digital input without a
  callback, and a digital report for pin 5 arrives: \<^verbatim>\<open>self.digital_callbacks[pin]\<close> raises
  \<open>KeyError\<close>, which leaves the handler and the dispatcher. The same holds for an analog
  report and for a sonar report whose key has no callback. The report is not dropped: the
  dispatcher ends with the exception.
\<close>

theorem missing_callback_stops_dispatcher:
  "fst (set_pin_mode_digital_input example_constants (fresh example_constants) 5 None) =
     Inr () \<and>
   pico_report_dispatcher example_constants [3, 2, 5, 1]
     (snd (set_pin_mode_digital_input example_constants (fresh example_constants) 5 None)) =
     (Raised KeyError,
      snd (set_pin_mode_digital_input example_constants (fresh example_constants) 5 None)) \<and>
   pico_report_dispatcher example_constants [4, 3, 0, 1, 2] (fresh example_constants) =
     (Raised KeyError, fresh example_constants) \<and>
   pico_report_dispatcher example_constants [4, 11, 6, 0, 0] (fresh example_constants) =
     (Raised KeyError, fresh example_constants)"
proof -
  let ?t5 = "new_transport\<lparr>write_calls := 1, written := [[4, 1, 5, 0, 1]]\<rparr>"
  let ?s5 = "fresh example_constants
        \<lparr>serial_port := Some ?t5,
         pico_pins := (pico_pins (fresh example_constants))(5 \<mapsto> AT_INPUT)\<rparr>"
  have "\<not> shutdown_flag ?s5" and "serial_port ?s5 = Some ?t5" and "is_open ?t5"
    by (simp_all add: fresh_shutdown_flag new_transport_def)
  from dispatcher_step [OF this, of example_constants "[5, 1]" 2 "[]"]
  have "pico_report_dispatcher example_constants [3, 2, 5, 1] ?s5 = (Raised KeyError, ?s5)"
    by (simp add: example_handlers fresh_callbacks digital_message_def)
  then show ?thesis
    using
      dispatcher_step [OF fresh_shutdown_flag fresh_port new_transport_open,
        of example_constants "[0, 1, 2]" 3 "[]"]
      dispatcher_step [OF fresh_shutdown_flag fresh_port new_transport_open,
        of example_constants "[6, 0, 0]" 11 "[]"]
    by (simp add: digital_input_on_pin_5 example_handlers fresh_callbacks analog_message_def
        sonar_distance_report_def)
qed

text \<open>The data branch of \<^verbatim>\<open>_dht_report\<close> does drop a report without a callback.\<close>

lemma dht_data_report_dropped:
  "dht_callbacks s pin = None \<Longrightarrow>
   dht_report pc s [0, pin, h_sign, t_sign, h, h_frac, t, t_frac] = (Inr (), s)"
  by (simp add: dht_report_def)

subsection \<open>Writing to a servo\<close>

lemma set_pin_mode_servo_eq:
  "pico_pins s pin \<noteq> None \<Longrightarrow>
   \<exists>s'. set_pin_mode pc s pin AT_SERVO lo hi None =
          send_command pc [uint (SET_PIN_MODE pc), pin, AT_PWM_OUTPUT] s' \<and>
        pico_pins s' pin = Some AT_SERVO \<and>
        servo_ranges s' pin = Some [lo, hi]"
  by (auto simp: set_pin_mode_def pin_mode_command_def store_callback_def mark_pin_def pin_modes)

lemma set_pin_mode_servo_Inr:
  assumes "set_pin_mode_servo pc s0 pin lo hi = (Inr (), s)"
  shows "pico_pins s pin = Some AT_SERVO \<and> servo_ranges s pin = Some [lo, hi]"
proof (cases "pico_pins s0 pin")
  case None
  with assms show ?thesis
    by (simp add: set_pin_mode_servo_def set_pin_mode_invalid pin_modes)
next
  case (Some m)
  then have "pico_pins s0 pin \<noteq> None"
    by simp
  from set_pin_mode_servo_eq [OF this, of pc lo hi] obtain s' where
    s': "set_pin_mode pc s0 pin AT_SERVO lo hi None =
           send_command pc [uint (SET_PIN_MODE pc), pin, AT_PWM_OUTPUT] s'"
      "pico_pins s' pin = Some AT_SERVO" "servo_ranges s' pin = Some [lo, hi]"
    by blast
  obtain r s1 where sent: "send_command pc [uint (SET_PIN_MODE pc), pin, AT_PWM_OUTPUT] s' = (r, s1)"
    by (cases "send_command pc [uint (SET_PIN_MODE pc), pin, AT_PWM_OUTPUT] s'")
  with assms s'(1) have r: "r = Inr ()" and s: "s = s1\<lparr>pico_pins := (pico_pins s1)(pin \<mapsto> AT_SERVO)\<rparr>"
    by (auto simp: set_pin_mode_servo_def split: sum.splits)
  from sent r send_command_Inr [of pc "[uint (SET_PIN_MODE pc), pin, AT_PWM_OUTPUT]" s' s1]
  have "servo_ranges s1 = servo_ranges s'"
    by auto
  with s s'(3) show ?thesis
    by simp
qed

lemma servo_write_configured:
  assumes "pico_pins s pin = Some AT_SERVO"
  shows "servo_write pc scale s pin v =
           (case servo_duty_cycle pc scale s pin v of
              Inl e \<Rightarrow> (Inl e, s)
            | Inr duty_cycle \<Rightarrow> (Inl TypeError, s))"
  using assms by (simp add: servo_write_def split: sum.splits)

lemma servo_on_pin_3:
  "fst (set_pin_mode_servo example_constants (fresh example_constants) 3 1000 2000) = Inr ()"
proof -
  let ?pc = example_constants
  let ?s = "fresh ?pc
      \<lparr>servo_ranges := (servo_ranges (fresh ?pc))(3 \<mapsto> [1000, 2000]),
       pico_pins := (pico_pins (fresh ?pc))(3 \<mapsto> AT_SERVO)\<rparr>"
  have "serial_port ?s = Some new_transport"
    by (simp add: fresh_port)
  from send_command_ok [OF this new_transport_open,
      of "[uint (SET_PIN_MODE ?pc), 3, AT_PWM_OUTPUT]" ?pc]
  show ?thesis
    by (simp add: set_pin_mode_servo_def set_pin_mode_def pin_mode_command_def
        store_callback_def mark_pin_def fresh_pico_pins example_values pin_modes)
qed

text \<open>
  Claim C9. For a pin that \<^verbatim>\<open>set_pin_mode_servo\<close> has configured, every call of
  \<^verbatim>\<open>servo_write\<close> raises and leaves the session, and with it the port, untouched: no byte
  is sent. Whenever the duty cycle is computed (the lookups of the range and the
  floating-point expression complete), the exception is the \<open>TypeError\<close> of the call of
  \<^verbatim>\<open>pwm_write\<close> with three positional arguments, which accepts at most two.
\<close>

theorem servo_write_raises:
  assumes "set_pin_mode_servo pc s0 pin min_pulse max_pulse = (Inr (), s)"
  shows "snd (servo_write pc scale s pin v) = s \<and>
         (\<exists>e. fst (servo_write pc scale s pin v) = Inl e) \<and>
         (\<forall>d. servo_duty_cycle pc scale s pin v = Inr d \<longrightarrow>
              fst (servo_write pc scale s pin v) = Inl TypeError)"
proof -
  from set_pin_mode_servo_Inr [OF assms] have "pico_pins s pin = Some AT_SERVO"
    by simp
  then show ?thesis
    by (simp add: servo_write_configured split: sum.splits)
qed

theorem servo_write_raises_witness:
  "fst (set_pin_mode_servo example_constants (fresh example_constants) 3 1000 2000) = Inr () \<and>
   servo_duty_cycle example_constants (\<lambda>v r. Inr (v * r div 180))
     (snd (set_pin_mode_servo example_constants (fresh example_constants) 3 1000 2000)) 3 90 =
     Inr 1500 \<and>
   servo_write example_constants (\<lambda>v r. Inr (v * r div 180))
     (snd (set_pin_mode_servo example_constants (fresh example_constants) 3 1000 2000)) 3 90 =
     (Inl TypeError,
      snd (set_pin_mode_servo example_constants (fresh example_constants) 3 1000 2000))"
proof -
  let ?s = "snd (set_pin_mode_servo example_constants (fresh example_constants) 3 1000 2000)"
  let ?scale = "\<lambda>v r :: int. Inr (v * r div 180) :: exn + int"
  have configured:
    "set_pin_mode_servo example_constants (fresh example_constants) 3 1000 2000 = (Inr (), ?s)"
    using servo_on_pin_3 by (simp add: prod_eq_iff)
  from set_pin_mode_servo_Inr [OF configured]
  have duty: "servo_duty_cycle example_constants ?scale ?s 3 90 = Inr 1500"
    by (simp add: servo_duty_cycle_def py_index_def example_values)
  from servo_write_raises [OF configured, of ?scale 90] duty servo_on_pin_3
  show ?thesis
    by (simp add: prod_eq_iff)
qed

subsection \<open>Data operations and the mode they need\<close>

text \<open>
  The guards of \<^verbatim>\<open>digital_write\<close>, of \<^verbatim>\<open>pwm_write\<close>, of \<^verbatim>\<open>i2c_write\<close> on
  both ports and of \<^verbatim>\<open>i2c_read\<close> on port 0: before the mode is assigned the call
  raises and sends only the frames of the shutdown it triggers, afterwards it sends exactly
  one frame.
\<close>

lemma digital_write_before:
  assumes "serial_port s = Some t" and "is_open t"
    and "pico_pins s pin = Some m" and "m \<noteq> AT_OUTPUT"
  shows "fst (digital_write pc s pin v) = Inl (RuntimeError Digital_write_mode_not_set) \<and>
         sent (snd (digital_write pc s pin v)) = sent s @ shutdown_frames pc s"
  using assms(3,4) sent_after_shutdown [OF assms(1,2), of pc]
  by (simp add: digital_write_def shutdown_then_raise_eq)

lemma i2c_write_before_0:
  assumes "serial_port s = Some t" and "is_open t" and "\<not> i2c_0_active s"
  shows "fst (i2c_write pc s a args 0 ns) = Inl (RuntimeError (I2c_never_called 0)) \<and>
         sent (snd (i2c_write pc s a args 0 ns)) = sent s @ shutdown_frames pc s"
  using assms(3) sent_after_shutdown [OF assms(1,2), of pc]
  by (simp add: i2c_write_def shutdown_then_raise_eq)

lemma i2c_write_before_1:
  assumes "serial_port s = Some t" and "is_open t" and "\<not> i2c_1_active s"
  shows "fst (i2c_write pc s a args 1 ns) = Inl (RuntimeError (I2c_never_called 2)) \<and>
         sent (snd (i2c_write pc s a args 1 ns)) = sent s @ shutdown_frames pc s"
  using assms(3) sent_after_shutdown [OF assms(1,2), of pc]
  by (simp add: i2c_write_def shutdown_then_raise_eq)

lemma i2c_read_before_0:
  assumes "serial_port s = Some t" and "is_open t" and "\<not> i2c_0_active s"
  shows "fst (i2c_read pc s a reg n (Some cb) 0 ns) = Inl (RuntimeError (I2c_never_called 0)) \<and>
         sent (snd (i2c_read pc s a reg n (Some cb) 0 ns)) = sent s @ shutdown_frames pc s"
  using assms(3) sent_after_shutdown [OF assms(1,2), of pc]
  by (simp add: i2c_read_def shutdown_then_raise_eq Let_def)

lemma digital_write_after:
  assumes "set_pin_mode_digital_output pc s pin = (Inr (), s1)" and "0 \<le> v \<and> v < 256"
  shows "fst (digital_write pc s1 pin v) = Inr () \<and>
         sent (snd (digital_write pc s1 pin v)) =
           sent s1 @ [[3, uint (DIGITAL_WRITE pc), pin, v]]"
proof -
  from set_pin_mode_digital_output_Inr [OF assms(1)] obtain t where
    t: "is_open t" and pin: "0 \<le> pin \<and> pin < 256" and
    s1: "s1 = s\<lparr>serial_port :=
                 Some (t\<lparr>write_calls := Suc (write_calls t),
                         written := written t @ [[3, uint (SET_PIN_MODE pc), pin, AT_OUTPUT]]\<rparr>),
                 pico_pins := (pico_pins s)(pin \<mapsto> AT_OUTPUT)\<rparr>"
    by blast
  let ?t1 = "t\<lparr>write_calls := Suc (write_calls t),
               written := written t @ [[3, uint (SET_PIN_MODE pc), pin, AT_OUTPUT]]\<rparr>"
  have port1: "serial_port s1 = Some ?t1" and open1: "is_open ?t1"
    and mode1: "pico_pins s1 pin = Some AT_OUTPUT"
    using t by (simp_all add: s1)
  have bytes: "\<forall>x \<in> set [uint (DIGITAL_WRITE pc), pin, v]. 0 \<le> x \<and> x < 256"
    using pin assms(2) byte_range [of "DIGITAL_WRITE pc"] by simp
  from send_command_ok [OF port1 open1 bytes, of pc] mode1 port1 show ?thesis
    by (simp add: digital_write_def sent_def)
qed

lemma set_pin_mode_i2c_Inr:
  assumes "set_pin_mode_i2c pc s port sda scl = (Inr (), s1)"
  shows "(port = 0 \<or> port = 1) \<and> 
         (\<exists>t. serial_port s1 = Some t \<and> is_open t) \<and>
         (port = 0 \<longrightarrow> i2c_0_active s1) \<and> (port = 1 \<longrightarrow> i2c_1_active s1)"
proof -
  have port: "port = 0 \<or> port = 1"
    using assms by (auto simp: set_pin_mode_i2c_def shutdown_then_raise_eq split: if_splits)
  obtain s2 where
    send: "send_command pc [uint (I2C_BEGIN pc), port, sda, scl] s2 = (Inr (), s1)" and
    active: "if port = 0 then i2c_0_active s2 else i2c_1_active s2"
    using assms port
    by (auto simp: set_pin_mode_i2c_def shutdown_then_raise_eq Let_def
        split: if_splits option.splits)
  from send_command_Inr [OF send] obtain t where
    "serial_port s2 = Some t" "is_open t"
    "s1 = s2\<lparr>serial_port :=
              Some (t\<lparr>write_calls := Suc (write_calls t),
                      written := written t @
                        [int (length [uint (I2C_BEGIN pc), port, sda, scl]) #
                         [uint (I2C_BEGIN pc), port, sda, scl]]\<rparr>)\<rparr>"
    by blast
  with port active show ?thesis
    by auto
qed

lemma i2c_write_after:
  assumes "set_pin_mode_i2c pc s port sda scl = (Inr (), s1)"
    and "\<forall>x \<in> set (a # args). 0 \<le> x \<and> x < 256" and "length args \<le> 250"
  shows "fst (i2c_write pc s1 a args port ns) = Inr () \<and>
         sent (snd (i2c_write pc s1 a args port ns)) =
           sent s1 @ [[int (5 + length args), uint (I2C_WRITE pc), port, a,
                       int (length args), of_bool ns] @ args]"
proof -
  from set_pin_mode_i2c_Inr [OF assms(1)] obtain t where
    port: "port = 0 \<or> port = 1" and t: "serial_port s1 = Some t" "is_open t" and
    active: "port = 0 \<longrightarrow> i2c_0_active s1" "port = 1 \<longrightarrow> i2c_1_active s1"
    by blast
  let ?command = "[uint (I2C_WRITE pc), port, a, int (length args), of_bool ns] @ args"
  have bytes: "\<forall>x \<in> set ?command. 0 \<le> x \<and> x < 256"
    using port assms(2,3) byte_range [of "I2C_WRITE pc"] by auto
  have len: "length ?command < 256"
    using assms(3) by simp
  from send_command_ok [OF t bytes len, of pc] port active t(1) show ?thesis
    by (auto simp: i2c_write_def sent_def)
qed

lemma i2c_read_after:
  assumes "set_pin_mode_i2c pc s 0 sda scl = (Inr (), s1)"
    and "\<forall>x \<in> set [a, n]. 0 \<le> x \<and> x < 256"
    and "case reg of None \<Rightarrow> True | Some r \<Rightarrow> 0 \<le> r \<and> r < 256"
  shows "fst (i2c_read pc s1 a reg n (Some cb) 0 ns) = Inr () \<and>
         sent (snd (i2c_read pc s1 a reg n (Some cb) 0 ns)) =
           sent s1 @ [[6, uint (I2C_READ pc), 0, a,
                       (case reg of
                          None \<Rightarrow> uint (I2C_NO_REGISTER pc)
                        | Some r \<Rightarrow> if r = 0 then uint (I2C_NO_REGISTER pc) else r),
                       n, of_bool ns]]"
proof -
  from set_pin_mode_i2c_Inr [OF assms(1)] obtain t where
    t: "serial_port s1 = Some t" "is_open t" and active: "i2c_0_active s1"
    by auto
  let ?register = "case reg of
                          None \<Rightarrow> uint (I2C_NO_REGISTER pc)
                        | Some r \<Rightarrow> if r = 0 then uint (I2C_NO_REGISTER pc) else r"
  let ?command = "[uint (I2C_READ pc), 0, a, ?register, n, of_bool ns]"
  have "0 \<le> ?register \<and> ?register < 256"
    using assms(3) byte_range [of "I2C_NO_REGISTER pc"] by (simp split: option.splits)
  then have bytes: "\<forall>x \<in> set ?command. 0 \<le> x \<and> x < 256"
    using assms(2) byte_range [of "I2C_READ pc"] by simp
  have port: "serial_port (s1\<lparr>i2c_callback := Some cb\<rparr>) = Some t"
    using t(1) by simp
  from send_command_ok [OF port t(2) bytes, of pc] active t(1) show ?thesis
    by (simp add: i2c_read_def sent_def Let_def)
qed

lemma send_command_fst_iff:
  "fst (send_command pc command s) = Inr () \<longleftrightarrow>
     (case serial_port s of None \<Rightarrow> False | Some t \<Rightarrow> is_open t) \<and>
     (\<forall>x \<in> set command. 0 \<le> x \<and> x < 256) \<and> length command < 256"
proof (cases "serial_port s")
  case None
  then show ?thesis
    by (simp add: send_command_None)
next
  case (Some t)
  then show ?thesis
    by (auto simp: send_command_Some py_bytes_def)
qed

lemma send_command_sent:
  "fst (send_command pc command s) = Inr () \<Longrightarrow>
   sent (snd (send_command pc command s)) = sent s @ [int (length command) # command]"
  by (cases "serial_port s")
     (auto simp: send_command_None send_command_Some py_bytes_def sent_def split: if_splits)

lemma fresh_i2c:
  "\<not> i2c_0_active (fresh pc)" "\<not> i2c_1_active (fresh pc)"
  "i2c_sda_pins (fresh pc) 4 = Some 255" "i2c_scl_pins (fresh pc) 5 = Some 255"
  by (simp_all add: fresh_def manual_open_def init_def dict_of_keys_apply sda_pins_def
      scl_pins_def)

lemma fresh_flags:
  "shutdown_on_exception (fresh pc)" "reset_on_shutdown (fresh pc)"
  by (simp_all add: fresh_def manual_open_def init_def)

lemma fresh_sent: "sent (fresh pc) = []"
  by (simp add: sent_def fresh_port new_transport_def)

lemma i2c_on_port_0:
  "fst (set_pin_mode_i2c example_constants (fresh example_constants) 0 4 5) = Inr ()"
  by (simp add: set_pin_mode_i2c_def fresh_i2c Let_def send_command_fst_iff fresh_port
      new_transport_open example_values)

lemma pwm_write_before:
  assumes "serial_port s = Some t" and "is_open t"
    and "pico_pins s pin = Some m" and "m \<noteq> AT_PWM_OUTPUT" and "m \<noteq> AT_SERVO"
  shows "fst (pwm_write pc s pin duty_cycle) = Inl (RuntimeError Pwm_write_mode_not_set) \<and>
         sent (snd (pwm_write pc s pin duty_cycle)) = sent s @ shutdown_frames pc s"
  using assms(3,4,5) sent_after_shutdown [OF assms(1,2), of pc]
  by (simp add: pwm_write_def shutdown_then_raise_eq)

lemma pwm_write_after:
  assumes "serial_port s = Some t" and "is_open t"
    and "pico_pins s pin = Some AT_PWM_OUTPUT" and "0 \<le> pin \<and> pin < 256"
    and "0 \<le> duty_cycle \<and> duty_cycle \<le> maximum_pwm_duty_cycle s" and "duty_cycle < 65536"
  shows "fst (pwm_write pc s pin duty_cycle) = Inr () \<and>
         sent (snd (pwm_write pc s pin duty_cycle)) =
           sent s @ [[4, uint (ANALOG_WRITE pc), pin, duty_cycle div 256, duty_cycle mod 256]]"
proof -
  let ?command = "[uint (ANALOG_WRITE pc), pin, duty_cycle div 256, duty_cycle mod 256]"
  have "0 \<le> duty_cycle div 256 \<and> duty_cycle div 256 < 256"
    using assms(5,6) by presburger
  then have ok: "fst (send_command pc ?command s) = Inr ()"
    using assms(1,2,4) byte_range [of "ANALOG_WRITE pc"] by (simp add: send_command_fst_iff)
  from ok send_command_sent [OF ok] assms(3,5,6) show ?thesis
    by (simp add: pwm_write_def to_bytes2_def)
qed

subsection \<open>Which pins are accepted\<close>

















subsection \<open>Assigning a mode again\<close>

lemma digital_output_then_again:
  assumes "set_pin_mode_digital_output pc s pin = (Inr (), s1)"
  shows "fst (set_pin_mode_digital_output pc s1 pin) = Inr () \<and>
         pico_pins (snd (set_pin_mode_digital_output pc s1 pin)) pin = Some AT_OUTPUT \<and>
         sent (snd (set_pin_mode_digital_output pc s1 pin)) =
           sent s1 @ [[3, uint (SET_PIN_MODE pc), pin, AT_OUTPUT]] \<and>
         fst (set_pin_mode_digital_input pc s1 pin cb) = Inr () \<and>
         pico_pins (snd (set_pin_mode_digital_input pc s1 pin cb)) pin = Some AT_INPUT \<and>
         sent (snd (set_pin_mode_digital_input pc s1 pin cb)) =
           sent s1 @ [[4, uint (SET_PIN_MODE pc), pin, AT_INPUT, 1]]"
proof -
  from set_pin_mode_digital_output_Inr [OF assms] obtain t where
    t: "serial_port s = Some t" "is_open t" and pin: "0 \<le> pin \<and> pin < 256" and
    s1: "s1 = s\<lparr>serial_port :=
                 Some (t\<lparr>write_calls := Suc (write_calls t),
                         written := written t @ [[3, uint (SET_PIN_MODE pc), pin, AT_OUTPUT]]\<rparr>),
                 pico_pins := (pico_pins s)(pin \<mapsto> AT_OUTPUT)\<rparr>"
    by blast
  let ?t1 = "t\<lparr>write_calls := Suc (write_calls t),
               written := written t @ [[3, uint (SET_PIN_MODE pc), pin, AT_OUTPUT]]\<rparr>"
  have port1: "serial_port s1 = Some ?t1" and open1: "is_open ?t1"
    and pins1: "pico_pins s1 pin \<noteq> None"
    using t(2) by (simp_all add: s1)
  have out_bytes: "\<forall>x \<in> set [uint (SET_PIN_MODE pc), pin, AT_OUTPUT]. 0 \<le> x \<and> x < 256"
    and in_bytes: "\<forall>x \<in> set [uint (SET_PIN_MODE pc), pin, AT_INPUT, 1]. 0 \<le> x \<and> x < 256"
    using pin byte_range [of "SET_PIN_MODE pc"] by (simp_all add: pin_modes)
  let ?o = "s1\<lparr>pico_pins := (pico_pins s1)(pin \<mapsto> AT_OUTPUT)\<rparr>"
  have "serial_port ?o = Some ?t1"
    using port1 by simp
  from send_command_ok [OF this open1 out_bytes, of pc]
  have out: "fst (set_pin_mode_digital_output pc s1 pin) = Inr () \<and>
         pico_pins (snd (set_pin_mode_digital_output pc s1 pin)) pin = Some AT_OUTPUT \<and>
         sent (snd (set_pin_mode_digital_output pc s1 pin)) =
           sent s1 @ [[3, uint (SET_PIN_MODE pc), pin, AT_OUTPUT]]"
    using pins1 port1 by (simp add: set_pin_mode_digital_output_eq sent_def)
  from set_pin_mode_digital_input_eq [OF pins1, of pc cb] obtain i where
    i: "set_pin_mode_digital_input pc s1 pin cb =
          send_command pc [uint (SET_PIN_MODE pc), pin, AT_INPUT, 1] i"
      "serial_port i = serial_port s1" "pico_pins i = (pico_pins s1)(pin \<mapsto> AT_INPUT)"
    by blast
  have "serial_port i = Some ?t1"
    using port1 i(2) by simp
  from send_command_ok [OF this open1 in_bytes, of pc]
  have "fst (set_pin_mode_digital_input pc s1 pin cb) = Inr () \<and>
         pico_pins (snd (set_pin_mode_digital_input pc s1 pin cb)) pin = Some AT_INPUT \<and>
         sent (snd (set_pin_mode_digital_input pc s1 pin cb)) =
           sent s1 @ [[4, uint (SET_PIN_MODE pc), pin, AT_INPUT, 1]]"
    using port1 i by (simp add: sent_def)
  with out show ?thesis
    by simp
qed

lemma set_pin_mode_i2c_Inr_pins:
  assumes "set_pin_mode_i2c pc s port sda scl = (Inr (), s1)"
  shows "(port = 0 \<or> port = 1) \<and> i2c_sda_pins s1 sda = Some port \<and>
         i2c_scl_pins s1 scl = Some port"
proof -
  have port: "port = 0 \<or> port = 1"
    using assms by (auto simp: set_pin_mode_i2c_def shutdown_then_raise_eq split: if_splits)
  obtain s2 where
    send: "send_command pc [uint (I2C_BEGIN pc), port, sda, scl] s2 = (Inr (), s1)" and
    pins: "i2c_sda_pins s2 sda = Some port" "i2c_scl_pins s2 scl = Some port"
    using assms port
    by (auto simp: set_pin_mode_i2c_def shutdown_then_raise_eq Let_def
        split: if_splits option.splits)
  from send_command_Inr [OF send] obtain t where
    "s1 = s2\<lparr>serial_port :=
              Some (t\<lparr>write_calls := Suc (write_calls t),
                      written := written t @
                        [int (length [uint (I2C_BEGIN pc), port, sda, scl]) #
                         [uint (I2C_BEGIN pc), port, sda, scl]]\<rparr>)\<rparr>"
    by blast
  with port pins show ?thesis
    by simp
qed

lemma set_pin_mode_i2c_again:
  assumes "set_pin_mode_i2c pc s port sda scl = (Inr (), s1)"
  shows "fst (set_pin_mode_i2c pc s1 port sda scl) = Inl (RuntimeError (I2c_sda_in_use sda)) \<and>
         pico_pins (snd (set_pin_mode_i2c pc s1 port sda scl)) = pico_pins s1"
  using set_pin_mode_i2c_Inr_pins [OF assms]
  by (auto simp: set_pin_mode_i2c_def shutdown_then_raise_eq shutdown_pico_pins)

text \<open>
  Claim C5, as the code has it. \<^verbatim>\<open>_set_pin_mode\<close> does not look at the mode a pin
  already has: after \<^verbatim>\<open>set_pin_mode_digital_output\<close> has succeeded for a pin, a second
  \<^verbatim>\<open>set_pin_mode_digital_output\<close> for the same pin succeeds again, sends its frame
  again and leaves the stored mode at digital output, and
  \<^verbatim>\<open>set_pin_mode_digital_input\<close> for the same pin succeeds, sends its frame and replaces
  the stored mode by digital input. \<^verbatim>\<open>set_pin_mode_i2c\<close> does refuse a second
  assignment: after it has succeeded for a port and a pair of pins, the same call again
  raises the error of the SDA pin that is already in use and leaves the pin table as it was.
\<close>

theorem pin_mode_assigned_again:
  "(set_pin_mode_digital_output pc s pin = (Inr (), s1) \<longrightarrow>
      fst (set_pin_mode_digital_output pc s1 pin) = Inr () \<and>
      pico_pins (snd (set_pin_mode_digital_output pc s1 pin)) pin = Some AT_OUTPUT \<and>
      sent (snd (set_pin_mode_digital_output pc s1 pin)) =
        sent s1 @ [[3, uint (SET_PIN_MODE pc), pin, AT_OUTPUT]] \<and>
      fst (set_pin_mode_digital_input pc s1 pin cb) = Inr () \<and>
      pico_pins (snd (set_pin_mode_digital_input pc s1 pin cb)) pin = Some AT_INPUT \<and>
      sent (snd (set_pin_mode_digital_input pc s1 pin cb)) =
        sent s1 @ [[4, uint (SET_PIN_MODE pc), pin, AT_INPUT, 1]]) \<and>
   (set_pin_mode_i2c pc s i2c_port sda_gpio scl_gpio = (Inr (), s2) \<longrightarrow>
      fst (set_pin_mode_i2c pc s2 i2c_port sda_gpio scl_gpio) =
        Inl (RuntimeError (I2c_sda_in_use sda_gpio)) \<and>
      pico_pins (snd (set_pin_mode_i2c pc s2 i2c_port sda_gpio scl_gpio)) = pico_pins s2)"
  using digital_output_then_again [of pc s pin s1 cb]
    set_pin_mode_i2c_again [of pc s i2c_port sda_gpio scl_gpio s2]
  by blast

theorem pin_mode_assigned_again_witness:
  "fst (set_pin_mode_digital_output example_constants (fresh example_constants) 2) = Inr () \<and>
   fst (set_pin_mode_digital_input example_constants
          (snd (set_pin_mode_digital_output example_constants (fresh example_constants) 2))
          2 (Some 0)) = Inr () \<and>
   pico_pins (snd (set_pin_mode_digital_input example_constants
          (snd (set_pin_mode_digital_output example_constants (fresh example_constants) 2))
          2 (Some 0))) 2 = Some AT_INPUT \<and>
   fst (set_pin_mode_i2c example_constants (fresh example_constants) 0 4 5) = Inr () \<and>
   fst (set_pin_mode_i2c example_constants
          (snd (set_pin_mode_i2c example_constants (fresh example_constants) 0 4 5)) 0 4 5) =
     Inl (RuntimeError (I2c_sda_in_use 4))"
proof -
  let ?pc = example_constants
  let ?o = "snd (set_pin_mode_digital_output ?pc (fresh ?pc) 2)"
  let ?i = "snd (set_pin_mode_i2c ?pc (fresh ?pc) 0 4 5)"
  have out: "set_pin_mode_digital_output ?pc (fresh ?pc) 2 = (Inr (), ?o)"
    by (simp add: digital_output_on_pin_2)
  have i2c: "set_pin_mode_i2c ?pc (fresh ?pc) 0 4 5 = (Inr (), ?i)"
    using i2c_on_port_0 by (simp add: prod_eq_iff)
  note both = pin_mode_assigned_again [where pc = ?pc and s = "fresh ?pc" and pin = 2
      and ?s1.0 = ?o and cb = "Some 0" and i2c_port = 0 and sda_gpio = 4 and scl_gpio = 5
      and ?s2.0 = ?i]
  from both out have "fst (set_pin_mode_digital_input ?pc ?o 2 (Some 0)) = Inr () \<and>
      pico_pins (snd (set_pin_mode_digital_input ?pc ?o 2 (Some 0))) 2 = Some AT_INPUT"
    by blast
  moreover from both i2c have "fst (set_pin_mode_i2c ?pc ?i 0 4 5) =
      Inl (RuntimeError (I2c_sda_in_use 4))"
    by blast
  moreover have "fst (set_pin_mode_digital_output ?pc (fresh ?pc) 2) = Inr ()"
    by (simp add: digital_output_on_pin_2)
  ultimately show ?thesis
    using i2c_on_port_0 by simp
qed

text \<open>
  The claim as the spec states it fails: pin 2 of a fresh session is set to digital output
  twice, and the second call completes and sends the same frame a second time.
\<close>

theorem pin_mode_set_twice_counterexample:
  "fst (set_pin_mode_digital_output example_constants (fresh example_constants) 2) = Inr () \<and>
   fst (set_pin_mode_digital_output example_constants
          (snd (set_pin_mode_digital_output example_constants (fresh example_constants) 2)) 2) =
     Inr () \<and>
   sent (snd (set_pin_mode_digital_output example_constants
          (snd (set_pin_mode_digital_output example_constants (fresh example_constants) 2)) 2)) =
     [[3, 1, 2, 1], [3, 1, 2, 1]]"
proof -
  let ?pc = example_constants
  let ?s1 = "fresh ?pc
        \<lparr>serial_port := Some (new_transport\<lparr>write_calls := 1, written := [[3, 1, 2, 1]]\<rparr>),
         pico_pins := (pico_pins (fresh ?pc))(2 \<mapsto> AT_OUTPUT)\<rparr>"
  let ?t1 = "new_transport\<lparr>write_calls := 1, written := [[3, 1, 2, 1]]\<rparr>"
  let ?s = "?s1\<lparr>pico_pins := (pico_pins ?s1)(2 \<mapsto> AT_OUTPUT)\<rparr>"
  have "serial_port ?s = Some ?t1" and "is_open ?t1"
    by (simp_all add: new_transport_def)
  from send_command_ok [OF this, of "[uint (SET_PIN_MODE ?pc), 2, AT_OUTPUT]" ?pc]
  show ?thesis
    by (simp add: digital_output_on_pin_2 set_pin_mode_digital_output_eq sent_def
        example_values new_transport_def pin_modes)
qed

subsection \<open>The guard of \<^verbatim>\<open>i2c_read\<close>\<close>

text \<open>
  Claim C1. The code at an input of the claim: on a fresh session, where
  \<^verbatim>\<open>set_pin_mode_i2c\<close> was never called, \<^verbatim>\<open>i2c_read\<close> on port 1 completes and sends
  its command. The method tests \<^verbatim>\<open>not i2c_port == 1\<close> and then \<^verbatim>\<open>i2c_0_active\<close>,
  so that for port 1 nothing is tested; on the same session \<^verbatim>\<open>i2c_write\<close> on port 1 and
  \<^verbatim>\<open>i2c_read\<close> on port 0 raise the error of the missing \<^verbatim>\<open>set_pin_mode_i2c\<close>.
\<close>

theorem i2c_read_port_1_unguarded:
  "\<not> i2c_1_active (fresh example_constants) \<and>
   fst (i2c_read example_constants (fresh example_constants) 8 None 2 (Some 0) 1 False) =
     Inr () \<and>
   sent (snd (i2c_read example_constants (fresh example_constants) 8 None 2 (Some 0) 1 False)) =
     [[6, 5, 1, 8, 254, 2, 0]] \<and>
   fst (i2c_write example_constants (fresh example_constants) 8 [1, 2] 1 False) =
     Inl (RuntimeError (I2c_never_called 2)) \<and>
   fst (i2c_read example_constants (fresh example_constants) 8 None 2 (Some 0) 0 False) =
     Inl (RuntimeError (I2c_never_called 0))"
proof -
  let ?pc = example_constants
  have "fst (send_command ?pc [5, 1, 8, 254, 2, 0] (fresh ?pc)) = Inr ()"
    by (simp add: send_command_fst_iff fresh_port new_transport_open)
  moreover from this have "sent (snd (send_command ?pc [5, 1, 8, 254, 2, 0] (fresh ?pc))) =
      [[6, 5, 1, 8, 254, 2, 0]]"
    by (simp add: send_command_sent fresh_sent)
  moreover have "fst (i2c_write ?pc (fresh ?pc) 8 [1, 2] 1 False) =
      Inl (RuntimeError (I2c_never_called 2))"
    using i2c_write_before_1 [OF fresh_port new_transport_open, of ?pc ?pc 8 "[1, 2]" False]
    by (simp add: fresh_i2c)
  moreover have "fst (i2c_read ?pc (fresh ?pc) 8 None 2 (Some 0) 0 False) =
      Inl (RuntimeError (I2c_never_called 0))"
    using i2c_read_before_0 [OF fresh_port new_transport_open, of ?pc ?pc 8 None 2 0 False]
    by (simp add: fresh_i2c)
  ultimately show ?thesis
    by (simp add: i2c_read_def Let_def fresh_i2c example_values)
qed

end
